theory Spec2Isabelle
  imports Main
begin

section \<open>Tracker issuance and access control (routes/trackers.js)\<close>

text \<open>
  The tracker routes of the Express backend, embedded as functions on an explicit
  persistent store. Everything a handler reads from outside the request and the store
  (the clock, the random source, the date parser of the runtime, the outcome of the
  store calls and of the mail dispatch) is a field of the environment \<open>env\<close>.
\<close>

subsection \<open>Values of the JavaScript runtime\<close>

text \<open>
  A field of \<open>req.body\<close> or \<open>req.query\<close> is absent (\<open>undefined\<close>), \<open>null\<close> or a
  string. \<open>truthy\<close> is the coercion applied by \<open>if (v)\<close>, \<open>v && e\<close> and \<open>v || e\<close>:
  \<open>undefined\<close>, \<open>null\<close> and the empty string are falsy.
\<close>

datatype jsval = Undefined | Null | Str string

fun truthy :: "jsval \<Rightarrow> bool" where
  "truthy Undefined = False"
| "truthy Null = False"
| "truthy (Str s) = (s \<noteq> [])"

text \<open>\<open>v || null\<close> for a string column: a truthy string is stored, anything else is NULL.\<close>

fun orNull :: "jsval \<Rightarrow> string option" where
  "orNull (Str s) = (if s \<noteq> [] then Some s else None)"
| "orNull _ = None"

text \<open>
  A point in time is the number of milliseconds since the epoch (\<open>Date.getTime()\<close>);
  \<open>new Date(s)\<close> yields a date object that may be invalid.
\<close>

type_synonym time = int

datatype jsdate = InvalidDate | Date time

subsection \<open>String primitives used by the identifier generator\<close>

text \<open>\<open>s.substring(a, b)\<close>: both indices are clamped to the length and swapped if needed.\<close>

definition substring :: "nat \<Rightarrow> nat \<Rightarrow> string \<Rightarrow> string" where
  "substring a b s =
     (let a' = min a (length s); b' = min b (length s)
      in take (max a' b' - min a' b') (drop (min a' b') s))"

text \<open>\<open>s.slice(-n)\<close>: the last \<open>n\<close> characters, the whole string when it is shorter.\<close>

definition slice_last :: "nat \<Rightarrow> string \<Rightarrow> string" where
  "slice_last n s = drop (length s - n) s"

definition lower_letters :: string where
  "lower_letters = ''abcdefghijklmnopqrstuvwxyz''"

definition upper_letters :: string where
  "upper_letters = ''ABCDEFGHIJKLMNOPQRSTUVWXYZ''"

definition decimal_digits :: string where
  "decimal_digits = ''0123456789''"

text \<open>\<open>toUpperCase\<close> on the ASCII range: a lowercase letter is replaced, any other
  character is kept.\<close>

definition toUpperCase_char :: "char \<Rightarrow> char" where
  "toUpperCase_char c =
     (case map_of (zip lower_letters upper_letters) c of Some u \<Rightarrow> u | None \<Rightarrow> c)"

definition toUpperCase :: "string \<Rightarrow> string" where
  "toUpperCase s = map toUpperCase_char s"

text \<open>\<open>n.toString()\<close> for an integer \<open>n\<close>: its decimal numeral, with a sign when negative.\<close>

definition digit_char :: "int \<Rightarrow> char" where
  "digit_char d = decimal_digits ! nat (d mod 10)"

function digits :: "int \<Rightarrow> string" where
  "digits n = (if n < 10 then [digit_char n] else digits (n div 10) @ [digit_char (n mod 10)])"
  by pat_completeness auto
termination
  by (relation "measure nat") auto

declare digits.simps [simp del]

definition toString :: "int \<Rightarrow> string" where
  "toString i = (if i < 0 then CHR ''-'' # digits (- i) else digits i)"

text \<open>
  The number that a string of decimal digits denotes. It is not part of the source: it
  is used to say which digits the suffix of an identifier holds.
\<close>

definition digit_value :: "char \<Rightarrow> int" where
  "digit_value c = of_char c - 48"

definition decimal_value :: "string \<Rightarrow> int" where
  "decimal_value s = foldl (\<lambda>a c. 10 * a + digit_value c) 0 s"

text \<open>
  \<open>Math.random().toString(36)\<close> is taken as an input string \<open>r\<close>. For a number in
  \<open>[0, 1)\<close> the runtime renders it as \<open>0\<close> or as \<open>0.\<close> followed by digits in base 36
  (\<open>0-9\<close>, \<open>a-z\<close>), never in exponent notation; \<open>is_random36\<close> says so.
\<close>

definition is_random36 :: "string \<Rightarrow> bool" where
  "is_random36 r =
     (r = ''0'' \<or>
      (take 2 r = ''0.'' \<and> drop 2 r \<noteq> [] \<and>
       list_all (\<lambda>c. c \<in> set (decimal_digits @ lower_letters)) (drop 2 r)))"

subsection \<open>Identifier generator\<close>

text \<open>
  \<^verbatim>\<open>
  const generateTrackerId = () => {
    const prefix = 'TRK';
    const randomPart = Math.random().toString(36).substring(2, 8).toUpperCase();
    const timestamp = Date.now().toString().slice(-4);
    return `${prefix}${randomPart}${timestamp}`;
  };
  \<close>
\<close>

definition randomPart :: "string \<Rightarrow> string" where
  "randomPart r = toUpperCase (substring 2 8 r)"

definition timestamp :: "time \<Rightarrow> string" where
  "timestamp t = slice_last 4 (toString t)"

definition generateTrackerId :: "string \<Rightarrow> time \<Rightarrow> string" where
  "generateTrackerId r t = ''TRK'' @ randomPart r @ timestamp t"

subsection \<open>Persistent store (prisma/schema.prisma)\<close>

text \<open>
  The rows of \<open>trips\<close> and \<open>trip_trackers\<close>, with the columns the tracker routes read
  or write. The columns the ORM maintains by itself (\<open>id\<close>, \<open>createdAt\<close>, \<open>updatedAt\<close>)
  and the trip columns no tracker route writes are left out. \<open>accessCount\<close> is an
  unbounded integer: the range of the database column is not modelled.
  \<open>trips\<close> is keyed by the trip id, \<open>tripTrackers\<close> by the unique \<open>trackerId\<close>.
\<close>

record trip =
  tripName :: "string option"
  destination :: "string option"
  startDate :: "time option"

record tripTracker =
  trackerId :: string
  tripId :: string
  email :: string
  travelerName :: "string option"
  phone :: "string option"
  saveDate :: "time option"
  isActive :: bool
  accessCount :: int
  lastAccessed :: "time option"
  expiresAt :: "time option"

record database =
  trips :: "string \<rightharpoonup> trip"
  tripTrackers :: "string \<rightharpoonup> tripTracker"

subsection \<open>Environment, requests, responses\<close>

text \<open>
  What is thrown inside a handler and reaches its \<open>catch\<close>: the error of
  \<open>ensureUniqueTrackerId\<close> or a rejected store call.
\<close>

datatype thrown = ExhaustedAttempts | StoreError

text \<open>
  The outcome of \<open>sendTripTrackerEmail\<close>: \<open>{success: true, messageId}\<close>,
  \<open>{success: false, error}\<close> (it catches the transport's errors itself), or an
  exception reaching the caller, which the handler's own \<open>catch\<close> covers.
\<close>

datatype emailResult = Success | Failure | Throws

text \<open>
  \<open>now\<close> is the clock (\<open>new Date()\<close>, \<open>Date.now()\<close>), read as one instant per request;
  \<open>random36 i\<close> is the \<open>i\<close>-th \<open>Math.random().toString(36)\<close> of the request;
  \<open>newDate s\<close> is \<open>new Date(s)\<close>; \<open>rejects l\<close> says that the store call at line \<open>l\<close>
  of routes/trackers.js rejects for a reason outside the model (connection, timeout);
  \<open>sendMail\<close> is the outcome of the mail dispatch; \<open>iso8601 s\<close> says that the
  non-empty string \<open>s\<close> matches the ISO 8601 pattern of the validation library.
\<close>

record env =
  now :: time
  random36 :: "nat \<Rightarrow> string"
  newDate :: "string \<Rightarrow> jsdate"
  rejects :: "nat \<Rightarrow> bool"
  sendMail :: emailResult
  iso8601 :: "string \<Rightarrow> bool"

text \<open>
  The parts of \<open>req\<close> the handlers read. \<open>errors_isEmpty\<close> is
  \<open>validationResult(req).isEmpty()\<close>: the verdict of the validation middleware, which
  runs before the handler, is an input of the handler.
\<close>

record request =
  errors_isEmpty :: bool
  params_trackerId :: string
  query_email :: jsval
  body_tripId :: string
  body_email :: string
  body_travelerName :: jsval
  body_phone :: jsval
  body_saveDate :: jsval
  body_startDate :: jsval
  body_expiresAt :: jsval

text \<open>The JSON bodies of the responses, one constructor per shape.\<close>

datatype reply =
    ErrorReply string
  | TrackerCreated tripTracker "string option" "string option"
  | TripData trip tripTracker int
  | TrackerUpdated tripTracker
  | TrackerDeactivated
  | Invalid string
  | Valid string "string option" "string option"

datatype effect = SendEmail | ConsoleLog | ConsoleWarn | ConsoleError

text \<open>
  What a handler leaves behind: the HTTP status and body, the store, and the mail and
  console calls in the order they were made.
\<close>

record outcome =
  status :: nat
  reply :: reply
  db :: database
  effects :: "effect list"

definition respond :: "nat \<Rightarrow> reply \<Rightarrow> database \<Rightarrow> effect list \<Rightarrow> outcome" where
  "respond c r s fx = \<lparr>status = c, reply = r, db = s, effects = fx\<rparr>"

text \<open>The outer \<open>catch\<close> of every handler: \<open>console.error\<close>, then status 500.\<close>

definition caught :: "string \<Rightarrow> database \<Rightarrow> outcome" where
  "caught err s = respond 500 (ErrorReply err) s [ConsoleError]"

subsection \<open>Store calls (Prisma client)\<close>

text \<open>
  The store is a collaborator outside the repository; its calls are modelled by what
  the handlers rely on: lookup by unique key, update of the matching row, insert under
  the constraints of the schema. A store call returns \<open>Inl\<close> when it rejects. Besides
  the outside reasons of \<open>rejects\<close>, the client rejects an invalid date argument,
  \<open>create\<close> rejects a duplicate \<open>trackerId\<close> (unique column) and a \<open>tripId\<close> without
  trip (foreign key), and \<open>update\<close> rejects when no row matches.
\<close>

definition trip_findUnique :: "env \<Rightarrow> nat \<Rightarrow> database \<Rightarrow> string \<Rightarrow> thrown + trip option" where
  "trip_findUnique e l s i = (if rejects e l then Inl StoreError else Inr (trips s i))"

definition tripTracker_findUnique ::
  "env \<Rightarrow> nat \<Rightarrow> database \<Rightarrow> string \<Rightarrow> thrown + tripTracker option" where
  "tripTracker_findUnique e l s k = (if rejects e l then Inl StoreError else Inr (tripTrackers s k))"

text \<open>\<open>prisma.trip.update({where: {id}, data: {startDate}})\<close>\<close>

definition trip_update :: "env \<Rightarrow> nat \<Rightarrow> database \<Rightarrow> string \<Rightarrow> jsdate \<Rightarrow> thrown + database" where
  "trip_update e l s i d =
     (if rejects e l then Inl StoreError
      else case d of
        InvalidDate \<Rightarrow> Inl StoreError
      | Date t \<Rightarrow>
          (case trips s i of
             None \<Rightarrow> Inl StoreError
           | Some tr \<Rightarrow> Inr (s\<lparr>trips := (trips s)(i \<mapsto> tr\<lparr>startDate := Some t\<rparr>)\<rparr>)))"

text \<open>The \<open>data\<close> of \<open>prisma.tripTracker.create\<close>, as the handler builds it.\<close>

record trackerData =
  data_trackerId :: string
  data_tripId :: string
  data_email :: string
  data_travelerName :: "string option"
  data_phone :: "string option"
  data_saveDate :: jsdate
  data_expiresAt :: "jsdate option"

text \<open>
  The inserted row: the columns absent from \<open>data\<close> take the defaults of the schema
  (\<open>isActive = true\<close>, \<open>accessCount = 0\<close>, \<open>lastAccessed = NULL\<close>).
\<close>

definition new_row :: "trackerData \<Rightarrow> time \<Rightarrow> time option \<Rightarrow> tripTracker" where
  "new_row d sd ex =
     \<lparr>trackerId = data_trackerId d, tripId = data_tripId d, email = data_email d,
      travelerName = data_travelerName d, phone = data_phone d, saveDate = Some sd,
      isActive = True, accessCount = 0, lastAccessed = None, expiresAt = ex\<rparr>"

definition insert_row :: "database \<Rightarrow> tripTracker \<Rightarrow> thrown + tripTracker \<times> database" where
  "insert_row s row =
     (if tripTrackers s (trackerId row) \<noteq> None then Inl StoreError
      else if trips s (tripId row) = None then Inl StoreError
      else Inr (row, s\<lparr>tripTrackers := (tripTrackers s)(trackerId row \<mapsto> row)\<rparr>))"

definition tripTracker_create ::
  "env \<Rightarrow> nat \<Rightarrow> database \<Rightarrow> trackerData \<Rightarrow> thrown + tripTracker \<times> database" where
  "tripTracker_create e l s d =
     (if rejects e l then Inl StoreError
      else case data_saveDate d of
        InvalidDate \<Rightarrow> Inl StoreError
      | Date sd \<Rightarrow>
          (case data_expiresAt d of
             None \<Rightarrow> insert_row s (new_row d sd None)
           | Some InvalidDate \<Rightarrow> Inl StoreError
           | Some (Date ex) \<Rightarrow> insert_row s (new_row d sd (Some ex))))"

text \<open>
  The \<open>data\<close> of \<open>prisma.tripTracker.update\<close>: a column is absent from the object or
  set to a value; \<open>accessCount\<close> is absent or \<open>{increment: n}\<close>, which the store applies
  to the value the row holds at the time of the write.
\<close>

datatype 'a field = Absent | Given 'a

datatype counter = Unchanged | Increment int

record updateData =
  upd_travelerName :: "string option field"
  upd_phone :: "string option field"
  upd_expiresAt :: "jsdate option field"
  upd_isActive :: "bool field"
  upd_accessCount :: counter
  upd_lastAccessed :: "jsdate field"

definition noData :: updateData where
  "noData = \<lparr>upd_travelerName = Absent, upd_phone = Absent, upd_expiresAt = Absent,
     upd_isActive = Absent, upd_accessCount = Unchanged, upd_lastAccessed = Absent\<rparr>"

fun write_field :: "'a field \<Rightarrow> 'a \<Rightarrow> 'a" where
  "write_field Absent old = old"
| "write_field (Given v) old = v"

fun write_counter :: "counter \<Rightarrow> int \<Rightarrow> int" where
  "write_counter Unchanged old = old"
| "write_counter (Increment n) old = old + n"

text \<open>A date argument as the column value it stores; \<open>None\<close> when the client rejects it.\<close>

fun nullable_date :: "jsdate option field \<Rightarrow> time option field option" where
  "nullable_date Absent = Some Absent"
| "nullable_date (Given None) = Some (Given None)"
| "nullable_date (Given (Some (Date t))) = Some (Given (Some t))"
| "nullable_date (Given (Some InvalidDate)) = None"

fun given_date :: "jsdate field \<Rightarrow> time option field option" where
  "given_date Absent = Some Absent"
| "given_date (Given (Date t)) = Some (Given (Some t))"
| "given_date (Given InvalidDate) = None"

definition tripTracker_update ::
  "env \<Rightarrow> nat \<Rightarrow> database \<Rightarrow> string \<Rightarrow> updateData \<Rightarrow> thrown + tripTracker \<times> database" where
  "tripTracker_update e l s k u =
     (if rejects e l then Inl StoreError
      else case (nullable_date (upd_expiresAt u), given_date (upd_lastAccessed u)) of
        (Some ex, Some la) \<Rightarrow>
          (case tripTrackers s k of
             None \<Rightarrow> Inl StoreError
           | Some row \<Rightarrow>
               (let row' = row
                     \<lparr>travelerName := write_field (upd_travelerName u) (travelerName row),
                      phone := write_field (upd_phone u) (phone row),
                      expiresAt := write_field ex (expiresAt row),
                      isActive := write_field (upd_isActive u) (isActive row),
                      accessCount := write_counter (upd_accessCount u) (accessCount row),
                      lastAccessed := write_field la (lastAccessed row)\<rparr>
                in Inr (row', s\<lparr>tripTrackers := (tripTrackers s)(k \<mapsto> row')\<rparr>)))
      | _ \<Rightarrow> Inl StoreError)"

subsection \<open>Uniqueness of the identifier\<close>

text \<open>
  \<^verbatim>\<open>
  const ensureUniqueTrackerId = async (maxAttempts = 10) => {
    for (let attempt = 0; attempt < maxAttempts; attempt++) {
      const trackerId = generateTrackerId();
      const existing = await prisma.tripTracker.findUnique({ where: { trackerId } });
      if (!existing) { return trackerId; }
    }
    throw new Error('Unable to generate unique tracker ID after multiple attempts');
  };
  \<close>
  \<open>candidate e i\<close> is the identifier generated in iteration \<open>i\<close>. The loop is the
  function \<open>attempts\<close> on the loop variable; beside the result it returns the number of
  iterations that were run (a counter the source does not have).
\<close>

definition candidate :: "env \<Rightarrow> nat \<Rightarrow> string" where
  "candidate e i = generateTrackerId (random36 e i) (now e)"

function attempts :: "env \<Rightarrow> database \<Rightarrow> nat \<Rightarrow> nat \<Rightarrow> (thrown + string) \<times> nat" where
  "attempts e s maxAttempts attempt =
     (if attempt < maxAttempts then
        (case tripTracker_findUnique e 56 s (candidate e attempt) of
           Inl x \<Rightarrow> (Inl x, Suc attempt)
         | Inr None \<Rightarrow> (Inr (candidate e attempt), Suc attempt)
         | Inr (Some existing) \<Rightarrow> attempts e s maxAttempts (Suc attempt))
      else (Inl ExhaustedAttempts, attempt))"
  by pat_completeness auto
termination
  by (relation "measure (\<lambda>(e, s, maxAttempts, attempt). maxAttempts - attempt)") auto

declare attempts.simps [simp del]

definition ensureUniqueTrackerId :: "env \<Rightarrow> database \<Rightarrow> nat \<Rightarrow> (thrown + string) \<times> nat" where
  "ensureUniqueTrackerId e s maxAttempts = attempts e s maxAttempts 0"

subsection \<open>POST /trackers\<close>

text \<open>\<open>new Date(v)\<close> for a request field.\<close>

fun toDate :: "env \<Rightarrow> jsval \<Rightarrow> jsdate" where
  "toDate e (Str s) = newDate e s"
| "toDate e Null = Date 0"
| "toDate e Undefined = InvalidDate"

text \<open>
  \<^verbatim>\<open>
  const trackerData = {
    trackerId, tripId, email,
    travelerName: travelerName || null,
    phone: phone || null,
    saveDate: saveDate ? new Date(saveDate) : new Date(),
    expiresAt: expiresAt ? new Date(expiresAt) : null
  };
  \<close>
\<close>

definition trackerData :: "env \<Rightarrow> request \<Rightarrow> string \<Rightarrow> trackerData" where
  "trackerData e req tid =
     \<lparr>data_trackerId = tid, data_tripId = body_tripId req, data_email = body_email req,
      data_travelerName = orNull (body_travelerName req),
      data_phone = orNull (body_phone req),
      data_saveDate =
        (if truthy (body_saveDate req) then toDate e (body_saveDate req) else Date (now e)),
      data_expiresAt =
        (if truthy (body_expiresAt req) then Some (toDate e (body_expiresAt req)) else None)\<rparr>"

text \<open>
  Lines 110-126: the trip's start date is written before the tracker is inserted, with
  the date of the request if it has one and with the current date otherwise.
\<close>

definition updateStartDate :: "env \<Rightarrow> database \<Rightarrow> request \<Rightarrow> thrown + database" where
  "updateStartDate e s req =
     (if truthy (body_startDate req)
      then trip_update e 112 s (body_tripId req) (toDate e (body_startDate req))
      else trip_update e 120 s (body_tripId req) (Date (now e)))"

text \<open>
  Lines 158-182: the confirmation mail, inside its own \<open>try\<close>. The arguments read
  properties of \<open>tripWithDestinations\<close>, so a missing trip throws inside the \<open>try\<close> before
  the dispatcher is called.
\<close>

definition sendConfirmation :: "env \<Rightarrow> trip option \<Rightarrow> effect list" where
  "sendConfirmation e tripWithDestinations =
     (case tripWithDestinations of
        None \<Rightarrow> [ConsoleError]
      | Some t \<Rightarrow>
          (case sendMail e of
             Success \<Rightarrow> [SendEmail, ConsoleLog]
           | Failure \<Rightarrow> [SendEmail, ConsoleWarn]
           | Throws \<Rightarrow> [SendEmail, ConsoleError]))"

text \<open>The handler of \<open>router.post('/')\<close>, lines 69-202.\<close>

definition createTracker :: "env \<Rightarrow> database \<Rightarrow> request \<Rightarrow> outcome" where
  "createTracker e s req =
     (if \<not> errors_isEmpty req then respond 400 (ErrorReply ''Validation failed'') s []
      else case trip_findUnique e 84 s (body_tripId req) of
        Inl x \<Rightarrow> caught ''Failed to create tracker'' s
      | Inr None \<Rightarrow> respond 404 (ErrorReply ''Trip not found'') s []
      | Inr (Some tr) \<Rightarrow>
          (case fst (ensureUniqueTrackerId e s 10) of
             Inl x \<Rightarrow> caught ''Failed to create tracker'' s
           | Inr tid \<Rightarrow>
               (case updateStartDate e s req of
                  Inl x \<Rightarrow> caught ''Failed to create tracker'' s
                | Inr s1 \<Rightarrow>
                    (case tripTracker_create e 128 s1 (trackerData e req tid) of
                       Inl x \<Rightarrow> caught ''Failed to create tracker'' s1
                     | Inr (tracker, s2) \<Rightarrow>
                         (case trip_findUnique e 146 s2 (body_tripId req) of
                            Inl x \<Rightarrow> caught ''Failed to create tracker'' s2
                          | Inr tripWithDestinations \<Rightarrow>
                              respond 201
                                (TrackerCreated tracker (tripName tr) (destination tr)) s2
                                (sendConfirmation e tripWithDestinations))))))"

subsection \<open>GET /trackers/:trackerId\<close>

text \<open>\<open>tracker.expiresAt && new Date() > tracker.expiresAt\<close>\<close>

definition expired :: "env \<Rightarrow> tripTracker \<Rightarrow> bool" where
  "expired e t = (case expiresAt t of None \<Rightarrow> False | Some x \<Rightarrow> now e > x)"

text \<open>\<open>email && tracker.email !== email\<close>\<close>

definition emailMismatch :: "jsval \<Rightarrow> tripTracker \<Rightarrow> bool" where
  "emailMismatch v t = (truthy v \<and> Str (email t) \<noteq> v)"

text \<open>\<open>data: { accessCount: { increment: 1 }, lastAccessed: new Date() }\<close>\<close>

definition accessData :: "env \<Rightarrow> updateData" where
  "accessData e = noData\<lparr>upd_accessCount := Increment 1, upd_lastAccessed := Given (Date (now e))\<rparr>"

text \<open>
  The handler of \<open>router.get('/:trackerId')\<close>, lines 205-344. The tracker is fetched
  with its trip (\<open>include: {trip}\<close>); the response is built from the fetched values
  after the counter has been written, and reading \<open>tracker.trip\<close> of a tracker
  without trip throws.
\<close>

definition getTripByTracker :: "env \<Rightarrow> database \<Rightarrow> request \<Rightarrow> outcome" where
  "getTripByTracker e s req =
     (case tripTracker_findUnique e 211 s (params_trackerId req) of
        Inl x \<Rightarrow> caught ''Failed to fetch trip'' s
      | Inr None \<Rightarrow> respond 404 (ErrorReply ''Tracker not found'') s []
      | Inr (Some tracker) \<Rightarrow>
          if \<not> isActive tracker then respond 410 (ErrorReply ''Tracker inactive'') s []
          else if expired e tracker then respond 410 (ErrorReply ''Tracker expired'') s []
          else if emailMismatch (query_email req) tracker
            then respond 403 (ErrorReply ''Access denied'') s []
          else
            (case tripTracker_update e 262 s (params_trackerId req) (accessData e) of
               Inl x \<Rightarrow> caught ''Failed to fetch trip'' s
             | Inr (row, s1) \<Rightarrow>
                 (case trips s (tripId tracker) of
                    None \<Rightarrow> caught ''Failed to fetch trip'' s1
                  | Some tr \<Rightarrow> respond 200 (TripData tr tracker (accessCount tracker + 1)) s1 [])))"

subsection \<open>PUT /trackers/:trackerId\<close>

text \<open>
  \<^verbatim>\<open>
  const updateData = {};
  if (travelerName !== undefined) updateData.travelerName = travelerName || null;
  if (phone !== undefined) updateData.phone = phone || null;
  if (expiresAt !== undefined) updateData.expiresAt = expiresAt ? new Date(expiresAt) : null;
  \<close>
\<close>

definition updateData :: "env \<Rightarrow> request \<Rightarrow> updateData" where
  "updateData e req = noData
     \<lparr>upd_travelerName :=
        (if body_travelerName req \<noteq> Undefined then Given (orNull (body_travelerName req))
         else Absent),
      upd_phone :=
        (if body_phone req \<noteq> Undefined then Given (orNull (body_phone req)) else Absent),
      upd_expiresAt :=
        (if body_expiresAt req \<noteq> Undefined
         then Given (if truthy (body_expiresAt req) then Some (toDate e (body_expiresAt req))
                     else None)
         else Absent)\<rparr>"

text \<open>The handler of \<open>router.put('/:trackerId')\<close>, lines 410-483.\<close>

definition updateTracker :: "env \<Rightarrow> database \<Rightarrow> request \<Rightarrow> outcome" where
  "updateTracker e s req =
     (if \<not> errors_isEmpty req then respond 400 (ErrorReply ''Validation failed'') s []
      else case tripTracker_findUnique e 427 s (params_trackerId req) of
        Inl x \<Rightarrow> caught ''Failed to update tracker'' s
      | Inr None \<Rightarrow> respond 404 (ErrorReply ''Tracker not found'') s []
      | Inr (Some tracker) \<Rightarrow>
          if emailMismatch (query_email req) tracker
            then respond 403 (ErrorReply ''Access denied'') s []
          else
            (case tripTracker_update e 452 s (params_trackerId req) (updateData e req) of
               Inl x \<Rightarrow> caught ''Failed to update tracker'' s
             | Inr (updatedTracker, s1) \<Rightarrow> respond 200 (TrackerUpdated updatedTracker) s1 []))"

text \<open>
  The validation chain of the route, lines 397-409:
  \<^verbatim>\<open>
  body('travelerName').optional().isLength({ min: 2, max: 255 }),
  body('phone').optional().isLength({ max: 50 }),
  body('expiresAt').optional().isISO8601()
  \<close>
  \<open>optional()\<close> without options skips the validators of a field only when the field is
  absent; a validator runs on the string form of the field, which is the empty string
  for \<open>null\<close>. The empty string matches no ISO 8601 form.
\<close>

fun fieldString :: "jsval \<Rightarrow> string" where
  "fieldString (Str s) = s"
| "fieldString _ = []"

definition optional :: "(string \<Rightarrow> bool) \<Rightarrow> jsval \<Rightarrow> bool" where
  "optional v x = (x = Undefined \<or> v (fieldString x))"

definition isLength :: "nat \<Rightarrow> nat \<Rightarrow> string \<Rightarrow> bool" where
  "isLength mn mx s = (mn \<le> length s \<and> length s \<le> mx)"

definition isISO8601 :: "env \<Rightarrow> string \<Rightarrow> bool" where
  "isISO8601 e s = (s \<noteq> [] \<and> iso8601 e s)"

definition updateTrackerValidation :: "env \<Rightarrow> request \<Rightarrow> bool" where
  "updateTrackerValidation e req =
     (optional (isLength 2 255) (body_travelerName req) \<and>
      optional (isLength 0 50) (body_phone req) \<and>
      optional (isISO8601 e) (body_expiresAt req))"

text \<open>
  The route: the chain runs first and leaves its verdict in the request, then the
  handler runs.
\<close>

definition putTracker :: "env \<Rightarrow> database \<Rightarrow> request \<Rightarrow> outcome" where
  "putTracker e s req = updateTracker e s (req\<lparr>errors_isEmpty := updateTrackerValidation e req\<rparr>)"

subsection \<open>DELETE /trackers/:trackerId\<close>

text \<open>The handler of \<open>router.delete('/:trackerId')\<close>, lines 486-529.\<close>

definition deactivateTracker :: "env \<Rightarrow> database \<Rightarrow> request \<Rightarrow> outcome" where
  "deactivateTracker e s req =
     (case tripTracker_findUnique e 492 s (params_trackerId req) of
        Inl x \<Rightarrow> caught ''Failed to deactivate tracker'' s
      | Inr None \<Rightarrow> respond 404 (ErrorReply ''Tracker not found'') s []
      | Inr (Some tracker) \<Rightarrow>
          if emailMismatch (query_email req) tracker
            then respond 403 (ErrorReply ''Access denied'') s []
          else
            (case tripTracker_update e 512 s (params_trackerId req)
                    (noData\<lparr>upd_isActive := Given False\<rparr>) of
               Inl x \<Rightarrow> caught ''Failed to deactivate tracker'' s
             | Inr (row, s1) \<Rightarrow> respond 200 TrackerDeactivated s1 []))"

subsection \<open>GET /trackers/:trackerId/validate\<close>

text \<open>
  The handler of \<open>router.get('/:trackerId/validate')\<close>, lines 589-649. Every verdict is
  sent with status 200; the valid one reads the trip selected with the tracker.
\<close>

definition validateTracker :: "env \<Rightarrow> database \<Rightarrow> request \<Rightarrow> outcome" where
  "validateTracker e s req =
     (case tripTracker_findUnique e 593 s (params_trackerId req) of
        Inl x \<Rightarrow> caught ''Failed to validate tracker'' s
      | Inr None \<Rightarrow> respond 200 (Invalid ''Tracker not found'') s []
      | Inr (Some tracker) \<Rightarrow>
          if \<not> isActive tracker then respond 200 (Invalid ''Tracker is inactive'') s []
          else if expired e tracker then respond 200 (Invalid ''Tracker has expired'') s []
          else
            (case trips s (tripId tracker) of
               None \<Rightarrow> caught ''Failed to validate tracker'' s
             | Some tr \<Rightarrow>
                 respond 200 (Valid (trackerId tracker) (tripName tr) (destination tr)) s []))"

subsection \<open>A sample store, environment and request\<close>

text \<open>
  The concrete inputs at which the theorems below are instantiated: one trip, one
  tracker on it, an environment whose random source always yields the identifier of
  that tracker (\<open>env1\<close>) and one that yields a free identifier at the second attempt
  (\<open>env2\<close>).
\<close>

definition trip1 :: trip where
  "trip1 = \<lparr>tripName = Some ''Bohol 2025'', destination = Some ''Bohol'',
     startDate = Some 1700000000000\<rparr>"

definition tracker1 :: tripTracker where
  "tracker1 = \<lparr>trackerId = ''TRKABCDEF0123'', tripId = ''T1'', email = ''a@x.com'',
     travelerName = Some ''Ann'', phone = Some ''555'', saveDate = Some 1730000000000,
     isActive = True, accessCount = 0, lastAccessed = None, expiresAt = None\<rparr>"

definition db1 :: database where
  "db1 = \<lparr>trips = [''T1'' \<mapsto> trip1], tripTrackers = [''TRKABCDEF0123'' \<mapsto> tracker1]\<rparr>"

definition env1 :: env where
  "env1 = \<lparr>now = 1730548800123, random36 = (\<lambda>i. ''0.abcdefgh''),
     newDate = (\<lambda>s. if s = ''2025-01-01'' then Date 1735689600000 else InvalidDate),
     rejects = (\<lambda>l. False), sendMail = Success,
     iso8601 = (\<lambda>s. s = ''2025-01-01'' \<or> s = ''2025-W01'')\<rparr>"

definition env2 :: env where
  "env2 = env1\<lparr>random36 := (\<lambda>i. if i = 0 then ''0.abcdefgh'' else ''0.i'')\<rparr>"

definition req1 :: request where
  "req1 = \<lparr>errors_isEmpty = True, params_trackerId = ''TRKABCDEF0123'', query_email = Undefined,
     body_tripId = ''T1'', body_email = ''b@x.com'', body_travelerName = Undefined,
     body_phone = Undefined, body_saveDate = Undefined, body_startDate = Undefined,
     body_expiresAt = Undefined\<rparr>"

section \<open>Properties\<close>

subsection \<open>Unfolding and the sample inputs\<close>

lemmas handler_defs = tripTracker_findUnique_def trip_findUnique_def respond_def caught_def
  expired_def emailMismatch_def

lemma env1_fields [simp]:
  "now env1 = 1730548800123" "rejects env1 l = False" "sendMail env1 = Success"
  by (simp_all add: env1_def)

lemma tracker1_fields [simp]:
  "trackerId tracker1 = ''TRKABCDEF0123''" "tripId tracker1 = ''T1''"
  "email tracker1 = ''a@x.com''" "isActive tracker1" "accessCount tracker1 = 0"
  "lastAccessed tracker1 = None" "expiresAt tracker1 = None"
  "travelerName tracker1 = Some ''Ann''" "phone tracker1 = Some ''555''"
  by (simp_all add: tracker1_def)

lemma db1_fields [simp]:
  "trips db1 = [''T1'' \<mapsto> trip1]" "tripTrackers db1 = [''TRKABCDEF0123'' \<mapsto> tracker1]"
  by (simp_all add: db1_def)

lemma req1_fields [simp]:
  "errors_isEmpty req1" "params_trackerId req1 = ''TRKABCDEF0123''" "query_email req1 = Undefined"
  "body_tripId req1 = ''T1''" "body_email req1 = ''b@x.com''" "body_travelerName req1 = Undefined"
  "body_phone req1 = Undefined" "body_saveDate req1 = Undefined"
  "body_startDate req1 = Undefined" "body_expiresAt req1 = Undefined"
  by (simp_all add: req1_def)

subsection \<open>The identifier generator\<close>

lemma digit_char_in: "digit_char k \<in> set decimal_digits"
proof -
  have "nat (k mod 10) < 10" by simp
  then have "nat (k mod 10) < length decimal_digits" by (simp add: decimal_digits_def)
  then show ?thesis unfolding digit_char_def by (rule nth_mem)
qed

lemma digits_chars: "set (digits n) \<subseteq> set decimal_digits"
proof (induction n rule: digits.induct)
  case (1 n)
  show ?case
  proof (cases "n < 10")
    case True
    then show ?thesis using digit_char_in by (subst digits.simps) simp
  next
    case False
    then show ?thesis using 1 digit_char_in by (subst digits.simps) simp
  qed
qed

lemma length_digits_ge: "10 ^ k \<le> n \<Longrightarrow> k < length (digits n)"
proof (induction k arbitrary: n)
  case 0
  show ?case by (subst digits.simps) simp
next
  case (Suc k)
  have "(10::int) \<le> 10 * 10 ^ k" by simp
  moreover have "10 * 10 ^ k \<le> n" using Suc.prems by simp
  ultimately have n10: "\<not> n < 10" by linarith
  from Suc.prems have "10 ^ k \<le> n div 10" by simp
  then have "k < length (digits (n div 10))" by (rule Suc.IH)
  then show ?case using n10 by (subst digits.simps) simp
qed

lemma timestamp_length: "1000 \<le> t \<Longrightarrow> length (timestamp t) = 4"
  using length_digits_ge [of 3 t] by (simp add: timestamp_def slice_last_def toString_def)

lemma timestamp_chars: "0 \<le> t \<Longrightarrow> set (timestamp t) \<subseteq> set decimal_digits"
  using digits_chars [of t] set_drop_subset [of "length (digits t) - 4" "digits t"]
  by (simp add: timestamp_def slice_last_def toString_def)

lemma toUpperCase_char_base36:
  "c \<in> set (decimal_digits @ lower_letters) \<Longrightarrow>
   toUpperCase_char c \<in> set (decimal_digits @ upper_letters)"
  by (auto simp: decimal_digits_def lower_letters_def upper_letters_def toUpperCase_char_def)

lemma length_randomPart: "length (randomPart r) \<le> 6"
  by (simp add: randomPart_def toUpperCase_def substring_def Let_def)

lemma randomPart_chars:
  assumes "is_random36 r"
  shows "set (randomPart r) \<subseteq> set (decimal_digits @ upper_letters)"
proof (cases "r = ''0''")
  case True
  then show ?thesis by (simp add: randomPart_def toUpperCase_def substring_def)
next
  case False
  with assms have all: "\<forall>c\<in>set (drop 2 r). c \<in> set (decimal_digits @ lower_letters)"
    by (simp add: is_random36_def list_all_iff)
  have "set (substring 2 8 r) \<subseteq> set (drop 2 r)"
    by (auto simp: substring_def Let_def min_def dest: in_set_takeD)
  with all have "\<forall>c\<in>set (substring 2 8 r). c \<in> set (decimal_digits @ lower_letters)"
    by blast
  then show ?thesis
    unfolding randomPart_def toUpperCase_def using toUpperCase_char_base36 by auto
qed


lemma slice_last_append: "slice_last (length ys) (xs @ ys) = ys"
  by (simp add: slice_last_def)

lemma digit_value_digit_char: "digit_value (digit_char k) = k mod 10"
proof -
  have "nat (k mod 10) < 10" by simp
  then have "nat (k mod 10) \<in> {0, 1, 2, 3, 4, 5, 6, 7, 8, 9}" by simp arith
  then have "digit_value (decimal_digits ! nat (k mod 10)) = int (nat (k mod 10))"
    by (auto simp: decimal_digits_def digit_value_def)
  then show ?thesis by (simp add: digit_char_def)
qed

lemma digit_char_mod: "digit_char (n mod 10) = digit_char n"
  by (simp add: digit_char_def)

lemma digits_snoc: "\<exists>pre. digits n = pre @ [digit_char n]"
  by (subst digits.simps) (simp add: digit_char_mod)

lemma digits_step: "10 \<le> n \<Longrightarrow> digits n = digits (n div 10) @ [digit_char n]"
  by (subst digits.simps) (simp add: digit_char_mod)

lemma digits_last4:
  assumes "1000 \<le> n"
  shows "\<exists>pre. digits n = pre @
    [digit_char (n div 1000), digit_char (n div 100), digit_char (n div 10), digit_char n]"
proof -
  have a: "digits n = digits (n div 10) @ [digit_char n]"
    using assms by (intro digits_step) simp
  have e1: "n div 10 div 10 = n div 100" and e2: "n div 100 div 10 = n div 1000"
    using zdiv_zmult2_eq [of 10 n 10] zdiv_zmult2_eq [of 10 n 100] by simp_all
  have b: "digits (n div 10) = digits (n div 100) @ [digit_char (n div 10)]"
    using assms digits_step [of "n div 10"] by (simp add: e1)
  have c: "digits (n div 100) = digits (n div 1000) @ [digit_char (n div 100)]"
    using assms digits_step [of "n div 100"] by (simp add: e2)
  obtain pre where d: "digits (n div 1000) = pre @ [digit_char (n div 1000)]"
    using digits_snoc by blast
  show ?thesis by (rule exI [of _ pre]) (simp add: a b c d)
qed

lemma timestamp_last4:
  assumes "1000 \<le> t"
  shows "timestamp t =
    [digit_char (t div 1000), digit_char (t div 100), digit_char (t div 10), digit_char t]"
proof -
  obtain pre where "digits t = pre @
      [digit_char (t div 1000), digit_char (t div 100), digit_char (t div 10), digit_char t]"
    using digits_last4 [OF assms] by blast
  then show ?thesis using assms
    by (simp add: timestamp_def toString_def slice_last_def)
qed

lemma timestamp_value:
  assumes "1000 \<le> t"
  shows "decimal_value (timestamp t) = t mod 10000"
proof -
  have "decimal_value (timestamp t) =
      1000 * (t div 1000 mod 10) + 100 * (t div 100 mod 10) + 10 * (t div 10 mod 10) + t mod 10"
    by (simp add: timestamp_last4 [OF assms] decimal_value_def digit_value_digit_char)
  also have "\<dots> = t mod 10000"
    using zmod_zmult2_eq [of 10 t 1000] zmod_zmult2_eq [of 10 t 100] zmod_zmult2_eq [of 10 t 10]
    by simp
  finally show ?thesis .
qed

text \<open>
  Claim C10. For a random rendering \<open>r\<close> of the shape the runtime produces and a clock
  value of at least four digits, the identifier starts with \<open>TRK\<close>, ends with four
  decimal digits, and has between them the random segment: at most six characters, each
  a digit or an uppercase letter. The four digits are those of the clock: the number
  they denote is the clock value modulo 10000. The length of the identifier is at most
  13, and some identifiers are shorter than 13 because their random segment has fewer
  than six characters.
\<close>

theorem generateTrackerId_format:
  assumes "is_random36 r" and "1000 \<le> t"
  shows "take 3 (generateTrackerId r t) = ''TRK''
    \<and> generateTrackerId r t = ''TRK'' @ randomPart r @ timestamp t
    \<and> length (randomPart r) \<le> 6
    \<and> set (randomPart r) \<subseteq> set (decimal_digits @ upper_letters)
    \<and> slice_last 4 (generateTrackerId r t) = timestamp t
    \<and> timestamp t = slice_last 4 (toString t)
    \<and> length (timestamp t) = 4
    \<and> set (timestamp t) \<subseteq> set decimal_digits
    \<and> decimal_value (slice_last 4 (generateTrackerId r t)) = t mod 10000
    \<and> length (generateTrackerId r t) \<le> 13
    \<and> (\<exists>r' t'. is_random36 r' \<and> 1000 \<le> t' \<and> length (randomPart r') < 6
          \<and> length (generateTrackerId r' t') < 13)"
proof -
  have len4: "length (timestamp t) = 4" using assms(2) by (rule timestamp_length)
  have suffix: "slice_last 4 (generateTrackerId r t) = timestamp t"
    using slice_last_append [of "timestamp t" "''TRK'' @ randomPart r"] len4
    by (simp add: generateTrackerId_def)
  have short: "is_random36 ''0.i'' \<and> 1000 \<le> (1000::int) \<and> length (randomPart ''0.i'') < 6
      \<and> length (generateTrackerId ''0.i'' 1000) < 13"
    using timestamp_length [of 1000]
    by (simp add: is_random36_def decimal_digits_def lower_letters_def randomPart_def
        toUpperCase_def substring_def generateTrackerId_def)
  have len: "length (generateTrackerId r t) \<le> 13"
    using len4 length_randomPart [of r] by (simp add: generateTrackerId_def)
  have val: "decimal_value (slice_last 4 (generateTrackerId r t)) = t mod 10000"
    using timestamp_value [OF assms(2)] by (simp add: suffix)
  have chars: "set (timestamp t) \<subseteq> set decimal_digits"
    using timestamp_chars [of t] assms(2) by simp
  have "take 3 (generateTrackerId r t) = ''TRK''"
    and "generateTrackerId r t = ''TRK'' @ randomPart r @ timestamp t"
    and "timestamp t = slice_last 4 (toString t)"
    by (simp_all add: generateTrackerId_def timestamp_def)
  then show ?thesis
    using len4 suffix len length_randomPart [of r] randomPart_chars [OF assms(1)]
      chars val short
    by blast
qed

theorem generateTrackerId_format_witness:
  "is_random36 ''0.4fzyo82mvyr'' \<and> (1000::int) \<le> 1730548800123
   \<and> generateTrackerId ''0.4fzyo82mvyr'' 1730548800123 = ''TRK4FZYO80123''
   \<and> length (generateTrackerId ''0.4fzyo82mvyr'' 1730548800123) \<le> 13
   \<and> decimal_value (slice_last 4 (generateTrackerId ''0.4fzyo82mvyr'' 1730548800123)) = 123
   \<and> generateTrackerId ''0.4fzyo82mvyr'' 1730548809876 = ''TRK4FZYO89876''
   \<and> decimal_value (slice_last 4 (generateTrackerId ''0.4fzyo82mvyr'' 1730548809876)) = 9876
   \<and> generateTrackerId ''0.i'' 1000 = ''TRKI1000''"
proof -
  have w: "is_random36 ''0.4fzyo82mvyr''"
    by (simp add: is_random36_def decimal_digits_def lower_letters_def)
  have v: "generateTrackerId ''0.4fzyo82mvyr'' 1730548800123 = ''TRK4FZYO80123''"
    by code_simp
  have v2: "generateTrackerId ''0.4fzyo82mvyr'' 1730548809876 = ''TRK4FZYO89876''"
    by code_simp
  have v3: "generateTrackerId ''0.i'' 1000 = ''TRKI1000''"
    by code_simp
  have le1: "(1000::int) \<le> 1730548800123" and le2: "(1000::int) \<le> 1730548809876" by simp_all
  note first = generateTrackerId_format [OF w le1]
  note second = generateTrackerId_format [OF w le2]
  have a: "decimal_value (slice_last 4 (generateTrackerId ''0.4fzyo82mvyr'' 1730548800123)) =
      1730548800123 mod 10000"
    and len: "length (generateTrackerId ''0.4fzyo82mvyr'' 1730548800123) \<le> 13"
    using first by blast+
  have b: "decimal_value (slice_last 4 (generateTrackerId ''0.4fzyo82mvyr'' 1730548809876)) =
      1730548809876 mod 10000"
    using second by blast
  have a': "decimal_value (slice_last 4 (generateTrackerId ''0.4fzyo82mvyr'' 1730548800123)) = 123"
    using a by simp
  have b': "decimal_value (slice_last 4 (generateTrackerId ''0.4fzyo82mvyr'' 1730548809876)) = 9876"
    using b by simp
  show ?thesis using w le1 v len a' v2 b' v3 by blast
qed

subsection \<open>Bounded search for a free identifier\<close>

lemma attempts_exhausted:
  "\<not> rejects e 56 \<Longrightarrow>
   (\<And>j. attempt \<le> j \<Longrightarrow> j < maxAttempts \<Longrightarrow> tripTrackers s (candidate e j) \<noteq> None) \<Longrightarrow>
   attempt \<le> maxAttempts \<Longrightarrow>
   attempts e s maxAttempts attempt = (Inl ExhaustedAttempts, maxAttempts)"
proof (induction e s maxAttempts attempt rule: attempts.induct)
  case (1 e s maxAttempts attempt)
  show ?case
  proof (cases "attempt < maxAttempts")
    case False
    with "1.prems" show ?thesis by (subst attempts.simps) simp
  next
    case True
    then obtain existing where ex: "tripTrackers s (candidate e attempt) = Some existing"
      using "1.prems"(2) [of attempt] by auto
    have found: "tripTracker_findUnique e 56 s (candidate e attempt) = Inr (Some existing)"
      using ex "1.prems"(1) by (simp add: tripTracker_findUnique_def)
    have "attempts e s maxAttempts (Suc attempt) = (Inl ExhaustedAttempts, maxAttempts)"
      using "1.IH" [OF True found refl "1.prems"(1)] "1.prems"(2) True by simp
    then show ?thesis using True found
      by (subst attempts.simps) simp
  qed
qed

lemma attempts_found:
  "\<not> rejects e 56 \<Longrightarrow> attempt \<le> i \<Longrightarrow> i < maxAttempts \<Longrightarrow>
   tripTrackers s (candidate e i) = None \<Longrightarrow>
   (\<And>j. attempt \<le> j \<Longrightarrow> j < i \<Longrightarrow> tripTrackers s (candidate e j) \<noteq> None) \<Longrightarrow>
   attempts e s maxAttempts attempt = (Inr (candidate e i), Suc i)"
proof (induction e s maxAttempts attempt rule: attempts.induct)
  case (1 e s maxAttempts attempt)
  have lt: "attempt < maxAttempts" using "1.prems" by simp
  show ?case
  proof (cases "attempt = i")
    case True
    then have "tripTracker_findUnique e 56 s (candidate e attempt) = Inr None"
      using "1.prems" by (simp add: tripTracker_findUnique_def)
    then show ?thesis using lt True by (subst attempts.simps) simp
  next
    case False
    then have less: "attempt < i" using "1.prems"(2) by simp
    then obtain existing where ex: "tripTrackers s (candidate e attempt) = Some existing"
      using "1.prems"(5) [of attempt] by auto
    have found: "tripTracker_findUnique e 56 s (candidate e attempt) = Inr (Some existing)"
      using ex "1.prems"(1) by (simp add: tripTracker_findUnique_def)
    have "attempts e s maxAttempts (Suc attempt) = (Inr (candidate e i), Suc i)"
      using "1.IH" [OF lt found refl "1.prems"(1) _ "1.prems"(3,4)] "1.prems"(5) less by simp
    then show ?thesis using lt found by (subst attempts.simps) simp
  qed
qed

lemma ensureUnique_first_free:
  assumes "\<not> rejects e 56" and "i < maxAttempts" and "tripTrackers s (candidate e i) = None"
    and "\<forall>j<i. tripTrackers s (candidate e j) \<noteq> None"
  shows "ensureUniqueTrackerId e s maxAttempts = (Inr (candidate e i), Suc i)"
  unfolding ensureUniqueTrackerId_def using assms by (intro attempts_found) simp_all

lemma ensureUnique_all_taken:
  assumes "\<not> rejects e 56" and "\<forall>i<maxAttempts. tripTrackers s (candidate e i) \<noteq> None"
  shows "ensureUniqueTrackerId e s maxAttempts = (Inl ExhaustedAttempts, maxAttempts)"
  unfolding ensureUniqueTrackerId_def using assms by (intro attempts_exhausted) simp_all

lemma ensureUnique_count:
  assumes "\<not> rejects e 56"
  shows "snd (ensureUniqueTrackerId e s maxAttempts) \<le> maxAttempts"
proof (cases "\<forall>i<maxAttempts. tripTrackers s (candidate e i) \<noteq> None")
  case True
  then show ?thesis using ensureUnique_all_taken [OF assms] by simp
next
  case False
  then have ex: "\<exists>i. i < maxAttempts \<and> tripTrackers s (candidate e i) = None" by auto
  define i where "i = (LEAST i. i < maxAttempts \<and> tripTrackers s (candidate e i) = None)"
  have pi: "i < maxAttempts \<and> tripTrackers s (candidate e i) = None"
    unfolding i_def using ex by (rule LeastI_ex)
  have "\<forall>j<i. tripTrackers s (candidate e j) \<noteq> None"
  proof (intro allI impI)
    fix j assume "j < i"
    then have "\<not> (j < maxAttempts \<and> tripTrackers s (candidate e j) = None)"
      unfolding i_def by (rule not_less_Least)
    moreover have "j < maxAttempts" using \<open>j < i\<close> pi by simp
    ultimately show "tripTrackers s (candidate e j) \<noteq> None" by simp
  qed
  then have "ensureUniqueTrackerId e s maxAttempts = (Inr (candidate e i), Suc i)"
    using pi assms by (intro ensureUnique_first_free) simp_all
  then show ?thesis using pi by simp
qed

lemma create_exhausted:
  assumes "errors_isEmpty req" and "\<not> rejects e 84" and "trips s (body_tripId req) \<noteq> None"
    and "ensureUniqueTrackerId e s 10 = (Inl x, n)"
  shows "createTracker e s req = caught ''Failed to create tracker'' s"
  using assms by (auto simp: createTracker_def trip_findUnique_def)

text \<open>
  Claim C5. With \<open>maxAttempts \<ge> 1\<close> and a store that answers the existence checks,
  \<open>ensureUniqueTrackerId\<close> runs at most \<open>maxAttempts\<close> iterations; it returns the
  first candidate that no tracker of the store has, after as many iterations as it took
  to reach it; when all \<open>maxAttempts\<close> candidates are taken it throws
  \<open>ExhaustedAttempts\<close> after exactly \<open>maxAttempts\<close> iterations. The create handler
  calls it with the default of 10 attempts and answers the exhaustion with status 500,
  leaving the store as it was.
\<close>

theorem ensureUniqueTrackerId_bounded:
  assumes "1 \<le> maxAttempts" and "\<not> rejects e 56"
  shows "snd (ensureUniqueTrackerId e s maxAttempts) \<le> maxAttempts
    \<and> (\<forall>i<maxAttempts.
          tripTrackers s (candidate e i) = None \<and>
          (\<forall>j<i. tripTrackers s (candidate e j) \<noteq> None) \<longrightarrow>
          ensureUniqueTrackerId e s maxAttempts = (Inr (candidate e i), Suc i))
    \<and> ((\<forall>i<maxAttempts. tripTrackers s (candidate e i) \<noteq> None) \<longrightarrow>
          ensureUniqueTrackerId e s maxAttempts = (Inl ExhaustedAttempts, maxAttempts))
    \<and> (errors_isEmpty req \<and> \<not> rejects e 84 \<and> trips s (body_tripId req) \<noteq> None \<and>
        (\<forall>i<10. tripTrackers s (candidate e i) \<noteq> None) \<longrightarrow>
          status (createTracker e s req) = 500 \<and>
          reply (createTracker e s req) = ErrorReply ''Failed to create tracker'' \<and>
          db (createTracker e s req) = s \<and>
          effects (createTracker e s req) = [ConsoleError])"
proof (intro conjI allI impI)
  show "snd (ensureUniqueTrackerId e s maxAttempts) \<le> maxAttempts"
    using assms(2) by (rule ensureUnique_count)
next
  fix i
  assume "i < maxAttempts"
    and "tripTrackers s (candidate e i) = None \<and> (\<forall>j<i. tripTrackers s (candidate e j) \<noteq> None)"
  then show "ensureUniqueTrackerId e s maxAttempts = (Inr (candidate e i), Suc i)"
    using assms(2) by (intro ensureUnique_first_free) simp_all
next
  assume "\<forall>i<maxAttempts. tripTrackers s (candidate e i) \<noteq> None"
  then show "ensureUniqueTrackerId e s maxAttempts = (Inl ExhaustedAttempts, maxAttempts)"
    using assms(2) by (intro ensureUnique_all_taken)
next
  assume h: "errors_isEmpty req \<and> \<not> rejects e 84 \<and> trips s (body_tripId req) \<noteq> None \<and>
        (\<forall>i<10. tripTrackers s (candidate e i) \<noteq> None)"
  then have "ensureUniqueTrackerId e s 10 = (Inl ExhaustedAttempts, 10)"
    using assms(2) by (intro ensureUnique_all_taken) simp_all
  then have c: "createTracker e s req = caught ''Failed to create tracker'' s"
    using h by (intro create_exhausted) simp_all
  show "status (createTracker e s req) = 500" by (simp add: c caught_def respond_def)
  show "reply (createTracker e s req) = ErrorReply ''Failed to create tracker''"
    by (simp add: c caught_def respond_def)
  show "db (createTracker e s req) = s" by (simp add: c caught_def respond_def)
  show "effects (createTracker e s req) = [ConsoleError]" by (simp add: c caught_def respond_def)
qed

lemma token_abcdef: "generateTrackerId ''0.abcdefgh'' 1730548800123 = ''TRKABCDEF0123''"
  by code_simp

lemma token_i: "generateTrackerId ''0.i'' 1730548800123 = ''TRKI0123''"
  by code_simp

lemma candidate_env1: "candidate env1 i = ''TRKABCDEF0123''"
  by (simp add: candidate_def env1_def token_abcdef)

lemma candidate_env2: "candidate env2 i = (if i = 0 then ''TRKABCDEF0123'' else ''TRKI0123'')"
  by (simp add: candidate_def env2_def env1_def token_abcdef token_i)

theorem ensureUniqueTrackerId_bounded_witness:
  "(1::nat) \<le> 3 \<and> \<not> rejects env1 56
   \<and> tripTrackers db1 (candidate env1 0) \<noteq> None
   \<and> tripTrackers db1 (candidate env1 1) \<noteq> None
   \<and> tripTrackers db1 (candidate env1 2) \<noteq> None
   \<and> ensureUniqueTrackerId env1 db1 3 = (Inl ExhaustedAttempts, 3)
   \<and> status (createTracker env1 db1 req1) = 500
   \<and> ensureUniqueTrackerId env2 db1 3 = (Inr ''TRKI0123'', 2)"
proof -
  have r1: "\<not> rejects env1 56" and r2: "\<not> rejects env2 56"
    by (simp_all add: env1_def env2_def)
  have taken: "\<And>i. tripTrackers db1 (candidate env1 i) \<noteq> None"
    by (simp add: candidate_env1 db1_def)
  have pre: "errors_isEmpty req1 \<and> \<not> rejects env1 84 \<and> trips db1 (body_tripId req1) \<noteq> None"
    by (simp add: req1_def env1_def db1_def)
  have free: "tripTrackers db1 (candidate env2 1) = None \<and>
      (\<forall>j<1. tripTrackers db1 (candidate env2 j) \<noteq> None)"
    by (simp add: candidate_env2 db1_def)
  have le: "(1::nat) \<le> 3" by simp
  note full = ensureUniqueTrackerId_bounded [OF le r1, of db1 req1]
  note part = ensureUniqueTrackerId_bounded [OF le r2, of db1 req1]
  have e1: "ensureUniqueTrackerId env1 db1 3 = (Inl ExhaustedAttempts, 3)"
    using full taken by simp
  have c1: "status (createTracker env1 db1 req1) = 500"
    using full taken pre by simp
  have e2: "ensureUniqueTrackerId env2 db1 3 = (Inr (candidate env2 1), Suc 1)"
    using part [THEN conjunct2, THEN conjunct1, rule_format, of 1] free by simp
  show ?thesis
    using le r1 taken e1 c1 e2 by (simp add: candidate_env2)
qed

subsection \<open>Order of the refusals of a read\<close>

text \<open>
  Claim C1, amended. A read answers with the first reason that applies, in the order
  not found (404), inactive (410), expired (410), email mismatch (403): an unknown
  identifier is not found; an inactive tracker is refused as inactive whatever the
  email and the expiry are; an active tracker whose \<open>expiresAt\<close> is before the
  current instant is refused as expired; an active, unexpired tracker is refused with
  403 when the query carries a non-empty email different from the stored one. When the
  query carries no email, or an empty one, the email is not compared and the read is
  not refused.
\<close>

theorem getTripByTracker_order:
  assumes "\<not> rejects e 211"
  shows "(tripTrackers s (params_trackerId req) = None \<longrightarrow>
            getTripByTracker e s req = respond 404 (ErrorReply ''Tracker not found'') s [])
    \<and> (\<forall>t. tripTrackers s (params_trackerId req) = Some t \<and> \<not> isActive t \<longrightarrow>
            getTripByTracker e s req = respond 410 (ErrorReply ''Tracker inactive'') s [])
    \<and> (\<forall>t x. tripTrackers s (params_trackerId req) = Some t \<and> isActive t \<and>
            expiresAt t = Some x \<and> x < now e \<longrightarrow>
            getTripByTracker e s req = respond 410 (ErrorReply ''Tracker expired'') s [])
    \<and> (\<forall>t v. tripTrackers s (params_trackerId req) = Some t \<and> isActive t \<and>
            (\<forall>x. expiresAt t = Some x \<longrightarrow> now e \<le> x) \<and>
            query_email req = Str v \<and> v \<noteq> [] \<and> v \<noteq> email t \<longrightarrow>
            getTripByTracker e s req = respond 403 (ErrorReply ''Access denied'') s [])
    \<and> (\<forall>t. tripTrackers s (params_trackerId req) = Some t \<and> isActive t \<and>
            (\<forall>x. expiresAt t = Some x \<longrightarrow> now e \<le> x) \<and>
            (query_email req = Undefined \<or> query_email req = Null \<or> query_email req = Str []) \<longrightarrow>
            status (getTripByTracker e s req) \<noteq> 403 \<and>
            status (getTripByTracker e s req) \<noteq> 404 \<and>
            status (getTripByTracker e s req) \<noteq> 410)"
  using assms
  by (auto simp: getTripByTracker_def handler_defs tripTracker_update_def
      split: option.splits sum.splits)

theorem getTripByTracker_order_witness:
  "\<not> rejects env1 211
   \<and> getTripByTracker env1 db1 (req1\<lparr>params_trackerId := ''TRKNONE''\<rparr>) =
       respond 404 (ErrorReply ''Tracker not found'') db1 []
   \<and> status (getTripByTracker env1
        (db1\<lparr>tripTrackers := [''TRKABCDEF0123'' \<mapsto> tracker1\<lparr>isActive := False, expiresAt := Some 5\<rparr>]\<rparr>)
        (req1\<lparr>query_email := Str ''b@x.com''\<rparr>)) = 410
   \<and> reply (getTripByTracker env1
        (db1\<lparr>tripTrackers := [''TRKABCDEF0123'' \<mapsto> tracker1\<lparr>isActive := False, expiresAt := Some 5\<rparr>]\<rparr>)
        (req1\<lparr>query_email := Str ''b@x.com''\<rparr>)) = ErrorReply ''Tracker inactive''
   \<and> reply (getTripByTracker env1
        (db1\<lparr>tripTrackers := [''TRKABCDEF0123'' \<mapsto> tracker1\<lparr>expiresAt := Some 5\<rparr>]\<rparr>)
        (req1\<lparr>query_email := Str ''b@x.com''\<rparr>)) = ErrorReply ''Tracker expired''
   \<and> getTripByTracker env1 db1 (req1\<lparr>query_email := Str ''b@x.com''\<rparr>) =
       respond 403 (ErrorReply ''Access denied'') db1 []
   \<and> status (getTripByTracker env1 db1 req1) \<noteq> 403"
proof -
  have r: "\<not> rejects env1 211" by simp
  note order = getTripByTracker_order [OF r]
  have a: "getTripByTracker env1 db1 (req1\<lparr>params_trackerId := ''TRKNONE''\<rparr>) =
       respond 404 (ErrorReply ''Tracker not found'') db1 []"
    using order [of db1 "req1\<lparr>params_trackerId := ''TRKNONE''\<rparr>"] by simp
  have b: "getTripByTracker env1
        (db1\<lparr>tripTrackers := [''TRKABCDEF0123'' \<mapsto> tracker1\<lparr>isActive := False, expiresAt := Some 5\<rparr>]\<rparr>)
        (req1\<lparr>query_email := Str ''b@x.com''\<rparr>) =
      respond 410 (ErrorReply ''Tracker inactive'')
        (db1\<lparr>tripTrackers := [''TRKABCDEF0123'' \<mapsto> tracker1\<lparr>isActive := False, expiresAt := Some 5\<rparr>]\<rparr>) []"
    using order [of "db1\<lparr>tripTrackers := [''TRKABCDEF0123'' \<mapsto> tracker1\<lparr>isActive := False, expiresAt := Some 5\<rparr>]\<rparr>"
        "req1\<lparr>query_email := Str ''b@x.com''\<rparr>"]
    by simp
  have c: "getTripByTracker env1
        (db1\<lparr>tripTrackers := [''TRKABCDEF0123'' \<mapsto> tracker1\<lparr>expiresAt := Some 5\<rparr>]\<rparr>)
        (req1\<lparr>query_email := Str ''b@x.com''\<rparr>) =
      respond 410 (ErrorReply ''Tracker expired'')
        (db1\<lparr>tripTrackers := [''TRKABCDEF0123'' \<mapsto> tracker1\<lparr>expiresAt := Some 5\<rparr>]\<rparr>) []"
    using order [of "db1\<lparr>tripTrackers := [''TRKABCDEF0123'' \<mapsto> tracker1\<lparr>expiresAt := Some 5\<rparr>]\<rparr>"
        "req1\<lparr>query_email := Str ''b@x.com''\<rparr>"]
    by simp
  have d: "getTripByTracker env1 db1 (req1\<lparr>query_email := Str ''b@x.com''\<rparr>) =
       respond 403 (ErrorReply ''Access denied'') db1 []"
    using order [of db1 "req1\<lparr>query_email := Str ''b@x.com''\<rparr>"] by simp
  have f: "status (getTripByTracker env1 db1 req1) \<noteq> 403"
    using order [of db1 req1] by simp
  show ?thesis using r a b c d f by (simp add: respond_def)
qed

text \<open>
  The claim as stated fails for the empty email, which \<open>?email=\<close> supplies: it differs
  from the stored email, and the read is granted.
\<close>

theorem getTripByTracker_empty_email_counterexample:
  "tripTrackers db1 (params_trackerId (req1\<lparr>query_email := Str ''''\<rparr>)) = Some tracker1
   \<and> isActive tracker1 \<and> expiresAt tracker1 = None
   \<and> query_email (req1\<lparr>query_email := Str ''''\<rparr>) \<noteq> Str (email tracker1)
   \<and> status (getTripByTracker env1 db1 (req1\<lparr>query_email := Str ''''\<rparr>)) = 200
   \<and> reply (getTripByTracker env1 db1 (req1\<lparr>query_email := Str ''''\<rparr>)) =
       TripData trip1 tracker1 1"
  by (simp add: getTripByTracker_def handler_defs tripTracker_update_def accessData_def
      noData_def Let_def)

subsection \<open>Access counter\<close>

lemma accessData_write:
  assumes "\<not> rejects e l" and "tripTrackers s k = Some r"
  shows "tripTracker_update e l s k (accessData e) =
     Inr (r\<lparr>accessCount := accessCount r + 1, lastAccessed := Some (now e)\<rparr>,
          s\<lparr>tripTrackers := (tripTrackers s)
               (k \<mapsto> r\<lparr>accessCount := accessCount r + 1, lastAccessed := Some (now e)\<rparr>)\<rparr>)"
  using assms by (simp add: tripTracker_update_def accessData_def noData_def Let_def)

lemma read_granted:
  assumes "status (getTripByTracker e s req) = 200"
  shows "\<exists>t. tripTrackers s (params_trackerId req) = Some t \<and>
     db (getTripByTracker e s req) = s\<lparr>tripTrackers := (tripTrackers s)
        (params_trackerId req \<mapsto>
           t\<lparr>accessCount := accessCount t + 1, lastAccessed := Some (now e)\<rparr>)\<rparr>"
proof (cases "tripTrackers s (params_trackerId req)")
  case None
  then show ?thesis using assms
    by (simp add: getTripByTracker_def handler_defs split: if_splits)
next
  case (Some t)
  show ?thesis
  proof (cases "rejects e 262")
    case True
    then show ?thesis using assms Some
      by (simp add: getTripByTracker_def handler_defs tripTracker_update_def split: if_splits)
  next
    case False
    note w = accessData_write [OF False Some]
    show ?thesis using assms Some
      by (auto simp: getTripByTracker_def handler_defs w split: if_splits option.splits)
  qed
qed

lemma read_denied:
  assumes "status (getTripByTracker e s req) = 403 \<or> status (getTripByTracker e s req) = 404
    \<or> status (getTripByTracker e s req) = 410"
  shows "db (getTripByTracker e s req) = s"
  using assms
  by (auto simp: getTripByTracker_def handler_defs
      split: if_splits option.splits sum.splits prod.splits)

lemma read_succeeds:
  assumes "tripTrackers s (params_trackerId req) = Some t" and "isActive t"
    and "\<forall>x. expiresAt t = Some x \<longrightarrow> now e \<le> x"
    and "\<not> truthy (query_email req) \<or> query_email req = Str (email t)"
    and "\<not> rejects e 211" and "\<not> rejects e 262" and "trips s (tripId t) = Some tr"
  shows "getTripByTracker e s req =
     respond 200 (TripData tr t (accessCount t + 1))
       (s\<lparr>tripTrackers := (tripTrackers s)
          (params_trackerId req \<mapsto>
             t\<lparr>accessCount := accessCount t + 1, lastAccessed := Some (now e)\<rparr>)\<rparr>) []"
proof -
  have "\<not> expired e t" using assms(3) by (auto simp: expired_def split: option.splits)
  moreover have "\<not> emailMismatch (query_email req) t"
    using assms(4) by (auto simp: emailMismatch_def)
  ultimately show ?thesis
    using assms
    by (simp add: getTripByTracker_def tripTracker_findUnique_def
        accessData_write [OF assms(6) assms(1)])
qed

text \<open>
  Claim C2. A read answered with 200 leaves the store with the tracker's \<open>accessCount\<close>
  one higher and its \<open>lastAccessed\<close> at the current instant, and nothing else
  changed; a read refused with 403, 404 or 410 leaves the store as it was. A read that
  passes the four checks is answered with 200 (the store calls answering and the
  tracker's trip being there), and so is the same read repeated, which counts again.
  The write is \<open>{increment: 1}\<close>: on any store it adds one to the value the row holds
  at the time of the write.
\<close>

theorem getTripByTracker_counts_access:
  "(status (getTripByTracker e s req) = 200 \<longrightarrow>
      (\<exists>t. tripTrackers s (params_trackerId req) = Some t \<and>
         db (getTripByTracker e s req) = s\<lparr>tripTrackers := (tripTrackers s)
           (params_trackerId req \<mapsto>
              t\<lparr>accessCount := accessCount t + 1, lastAccessed := Some (now e)\<rparr>)\<rparr>))
   \<and> (status (getTripByTracker e s req) = 403 \<or> status (getTripByTracker e s req) = 404 \<or>
       status (getTripByTracker e s req) = 410 \<longrightarrow>
         db (getTripByTracker e s req) = s)
   \<and> (\<forall>t tr. tripTrackers s (params_trackerId req) = Some t \<and> isActive t \<and>
         (\<forall>x. expiresAt t = Some x \<longrightarrow> now e \<le> x) \<and>
         (\<not> truthy (query_email req) \<or> query_email req = Str (email t)) \<and>
         \<not> rejects e 211 \<and> \<not> rejects e 262 \<and> trips s (tripId t) = Some tr \<longrightarrow>
         status (getTripByTracker e s req) = 200 \<and>
         reply (getTripByTracker e s req) = TripData tr t (accessCount t + 1) \<and>
         (\<forall>e2. (\<forall>x. expiresAt t = Some x \<longrightarrow> now e2 \<le> x) \<and>
               \<not> rejects e2 211 \<and> \<not> rejects e2 262 \<longrightarrow>
            status (getTripByTracker e2 (db (getTripByTracker e s req)) req) = 200 \<and>
            tripTrackers (db (getTripByTracker e2 (db (getTripByTracker e s req)) req))
              (params_trackerId req) =
              Some (t\<lparr>accessCount := accessCount t + 2, lastAccessed := Some (now e2)\<rparr>)))
   \<and> upd_accessCount (accessData e) = Increment 1
   \<and> (\<forall>s2 k r. \<not> rejects e 262 \<and> tripTrackers s2 k = Some r \<longrightarrow>
         (\<exists>s3. tripTracker_update e 262 s2 k (accessData e) =
                 Inr (r\<lparr>accessCount := accessCount r + 1, lastAccessed := Some (now e)\<rparr>, s3)))"
proof (intro conjI allI impI)
  assume "status (getTripByTracker e s req) = 200"
  then show "\<exists>t. tripTrackers s (params_trackerId req) = Some t \<and>
         db (getTripByTracker e s req) = s\<lparr>tripTrackers := (tripTrackers s)
           (params_trackerId req \<mapsto>
              t\<lparr>accessCount := accessCount t + 1, lastAccessed := Some (now e)\<rparr>)\<rparr>"
    by (rule read_granted)
next
  assume "status (getTripByTracker e s req) = 403 \<or> status (getTripByTracker e s req) = 404 \<or>
       status (getTripByTracker e s req) = 410"
  then show "db (getTripByTracker e s req) = s" by (rule read_denied)
next
  show "upd_accessCount (accessData e) = Increment 1" by (simp add: accessData_def)
next
  fix s2 :: database and k r
  assume "\<not> rejects e 262 \<and> tripTrackers s2 k = Some r"
  then show "\<exists>s3. tripTracker_update e 262 s2 k (accessData e) =
      Inr (r\<lparr>accessCount := accessCount r + 1, lastAccessed := Some (now e)\<rparr>, s3)"
    using accessData_write [of e 262 s2 k r] by simp
next
  fix t :: tripTracker and tr :: trip
  assume h: "tripTrackers s (params_trackerId req) = Some t \<and> isActive t \<and>
         (\<forall>x. expiresAt t = Some x \<longrightarrow> now e \<le> x) \<and>
         (\<not> truthy (query_email req) \<or> query_email req = Str (email t)) \<and>
         \<not> rejects e 211 \<and> \<not> rejects e 262 \<and> trips s (tripId t) = Some tr"
  then have first: "getTripByTracker e s req =
     respond 200 (TripData tr t (accessCount t + 1))
       (s\<lparr>tripTrackers := (tripTrackers s)
          (params_trackerId req \<mapsto>
             t\<lparr>accessCount := accessCount t + 1, lastAccessed := Some (now e)\<rparr>)\<rparr>) []"
    by (intro read_succeeds) simp_all
  show "status (getTripByTracker e s req) = 200" by (simp add: first respond_def)
  show "reply (getTripByTracker e s req) = TripData tr t (accessCount t + 1)"
    by (simp add: first respond_def)
  fix e2 :: env
  assume h2: "(\<forall>x. expiresAt t = Some x \<longrightarrow> now e2 \<le> x) \<and>
               \<not> rejects e2 211 \<and> \<not> rejects e2 262"
  define t1 where "t1 = t\<lparr>accessCount := accessCount t + 1, lastAccessed := Some (now e)\<rparr>"
  define s1 where "s1 = s\<lparr>tripTrackers := (tripTrackers s)(params_trackerId req \<mapsto> t1)\<rparr>"
  have d1: "db (getTripByTracker e s req) = s1"
    by (simp add: first respond_def s1_def t1_def)
  have second: "getTripByTracker e2 s1 req =
     respond 200 (TripData tr t1 (accessCount t1 + 1))
       (s1\<lparr>tripTrackers := (tripTrackers s1)
          (params_trackerId req \<mapsto>
             t1\<lparr>accessCount := accessCount t1 + 1, lastAccessed := Some (now e2)\<rparr>)\<rparr>) []"
    using h h2 by (intro read_succeeds) (simp_all add: s1_def t1_def)
  show "status (getTripByTracker e2 (db (getTripByTracker e s req)) req) = 200"
    by (simp add: d1 second respond_def)
  show "tripTrackers (db (getTripByTracker e2 (db (getTripByTracker e s req)) req))
              (params_trackerId req) =
              Some (t\<lparr>accessCount := accessCount t + 2, lastAccessed := Some (now e2)\<rparr>)"
    by (simp add: d1 second respond_def t1_def)
qed

theorem getTripByTracker_counts_access_witness:
  "status (getTripByTracker env1 db1 req1) = 200
   \<and> tripTrackers (db (getTripByTracker env1 db1 req1)) ''TRKABCDEF0123'' =
       Some (tracker1\<lparr>accessCount := 1, lastAccessed := Some 1730548800123\<rparr>)
   \<and> tripTrackers (db (getTripByTracker (env1\<lparr>now := 1730548800999\<rparr>)
         (db (getTripByTracker env1 db1 req1)) req1)) ''TRKABCDEF0123'' =
       Some (tracker1\<lparr>accessCount := 2, lastAccessed := Some 1730548800999\<rparr>)
   \<and> status (getTripByTracker env1 db1 (req1\<lparr>query_email := Str ''b@x.com''\<rparr>)) = 403
   \<and> db (getTripByTracker env1 db1 (req1\<lparr>query_email := Str ''b@x.com''\<rparr>)) = db1"
proof -
  note thm1 = getTripByTracker_counts_access [of env1 db1 req1]
  have pre: "tripTrackers db1 (params_trackerId req1) = Some tracker1 \<and> isActive tracker1 \<and>
         (\<forall>x. expiresAt tracker1 = Some x \<longrightarrow> now env1 \<le> x) \<and>
         (\<not> truthy (query_email req1) \<or> query_email req1 = Str (email tracker1)) \<and>
         \<not> rejects env1 211 \<and> \<not> rejects env1 262 \<and> trips db1 (tripId tracker1) = Some trip1"
    by simp
  note ok = thm1 [THEN conjunct2, THEN conjunct2, THEN conjunct1, rule_format, OF pre]
  have a: "status (getTripByTracker env1 db1 req1) = 200" using ok by simp
  have b: "tripTrackers (db (getTripByTracker env1 db1 req1)) ''TRKABCDEF0123'' =
       Some (tracker1\<lparr>accessCount := 1, lastAccessed := Some 1730548800123\<rparr>)"
    using thm1 [THEN conjunct1] a by auto
  have pre2: "(\<forall>x. expiresAt tracker1 = Some x \<longrightarrow> now (env1\<lparr>now := 1730548800999\<rparr>) \<le> x) \<and>
      \<not> rejects (env1\<lparr>now := 1730548800999\<rparr>) 211 \<and> \<not> rejects (env1\<lparr>now := 1730548800999\<rparr>) 262"
    by simp
  have c: "tripTrackers (db (getTripByTracker (env1\<lparr>now := 1730548800999\<rparr>)
         (db (getTripByTracker env1 db1 req1)) req1)) ''TRKABCDEF0123'' =
       Some (tracker1\<lparr>accessCount := 2, lastAccessed := Some 1730548800999\<rparr>)"
    using ok [THEN conjunct2, THEN conjunct2, rule_format, OF pre2] by simp
  have d: "status (getTripByTracker env1 db1 (req1\<lparr>query_email := Str ''b@x.com''\<rparr>)) = 403"
    by (simp add: getTripByTracker_def handler_defs)
  have f: "db (getTripByTracker env1 db1 (req1\<lparr>query_email := Str ''b@x.com''\<rparr>)) = db1"
    using getTripByTracker_counts_access [of env1 db1 "req1\<lparr>query_email := Str ''b@x.com''\<rparr>",
        THEN conjunct2, THEN conjunct1] d by simp
  show ?thesis using a b c d f by simp
qed

subsection \<open>Creating a tracker\<close>

lemma create_to_insert:
  assumes "errors_isEmpty req" and "\<not> rejects e 84" and "trips s (body_tripId req) = Some tr"
    and "fst (ensureUniqueTrackerId e s 10) = Inr tid" and "updateStartDate e s req = Inr s1"
  shows "createTracker e s req =
     (case tripTracker_create e 128 s1 (trackerData e req tid) of
        Inl x \<Rightarrow> caught ''Failed to create tracker'' s1
      | Inr (tracker, s2) \<Rightarrow>
          (case trip_findUnique e 146 s2 (body_tripId req) of
             Inl x \<Rightarrow> caught ''Failed to create tracker'' s2
           | Inr tripWithDestinations \<Rightarrow>
               respond 201 (TrackerCreated tracker (tripName tr) (destination tr)) s2
                 (sendConfirmation e tripWithDestinations)))"
  using assms by (simp add: createTracker_def trip_findUnique_def)

lemma trip_update_Inr:
  assumes "trip_update e l s i d = Inr s1"
  shows "\<exists>t tr. d = Date t \<and> trips s i = Some tr \<and> \<not> rejects e l \<and>
     s1 = s\<lparr>trips := (trips s)(i \<mapsto> tr\<lparr>startDate := Some t\<rparr>)\<rparr>"
  using assms by (auto simp: trip_update_def split: if_splits jsdate.splits option.splits)

lemma updateStartDate_Inr:
  assumes "updateStartDate e s req = Inr s1"
  shows "\<exists>t tr. trips s (body_tripId req) = Some tr \<and>
     s1 = s\<lparr>trips := (trips s)(body_tripId req \<mapsto> tr\<lparr>startDate := Some t\<rparr>)\<rparr> \<and>
     (if truthy (body_startDate req) then toDate e (body_startDate req) = Date t \<and> \<not> rejects e 112
      else t = now e \<and> \<not> rejects e 120)"
proof (cases "truthy (body_startDate req)")
  case True
  then show ?thesis using assms trip_update_Inr [of e 112 s "body_tripId req" "toDate e (body_startDate req)" s1]
    by (auto simp: updateStartDate_def)
next
  case False
  then show ?thesis using assms trip_update_Inr [of e 120 s "body_tripId req" "Date (now e)" s1]
    by (auto simp: updateStartDate_def)
qed

lemma insert_row_Inr:
  assumes "insert_row s row = Inr (r, s2)"
  shows "r = row \<and> tripTrackers s (trackerId row) = None \<and> trips s2 = trips s \<and>
     s2 = s\<lparr>tripTrackers := (tripTrackers s)(trackerId row \<mapsto> row)\<rparr>"
  using assms by (auto simp: insert_row_def split: if_splits)

lemma tripTracker_create_Inr:
  assumes "tripTracker_create e l s d = Inr (r, s2)"
  shows "trackerId r = data_trackerId d \<and> tripTrackers s (data_trackerId d) = None \<and>
     trips s2 = trips s \<and> s2 = s\<lparr>tripTrackers := (tripTrackers s)(data_trackerId d \<mapsto> r)\<rparr> \<and>
     isActive r \<and> accessCount r = 0 \<and> email r = data_email d \<and> tripId r = data_tripId d"
  using assms
  by (auto simp: tripTracker_create_def new_row_def
      split: if_splits jsdate.splits option.splits dest!: insert_row_Inr)


lemma env2_fields [simp]:
  "now env2 = 1730548800123" "rejects env2 l = False" "sendMail env2 = Success"
  "newDate env2 ''2025-01-01'' = Date 1735689600000"
  by (simp_all add: env2_def env1_def)

lemma env2_free_id: "fst (ensureUniqueTrackerId env2 db1 10) = Inr ''TRKI0123''"
proof -
  have "ensureUniqueTrackerId env2 db1 10 = (Inr (candidate env2 1), Suc 1)"
    by (rule ensureUnique_first_free) (simp_all add: candidate_env2)
  then show ?thesis by (simp add: candidate_env2)
qed

lemma create_invalid_startDate:
  assumes "errors_isEmpty req" and "\<not> rejects e 84" and "trips s (body_tripId req) = Some tr"
    and "fst (ensureUniqueTrackerId e s 10) = Inr tid"
    and "body_startDate req = Str d" and "d \<noteq> []" and "newDate e d = InvalidDate"
  shows "createTracker e s req = caught ''Failed to create tracker'' s"
proof -
  have "updateStartDate e s req = Inl StoreError"
    using assms(5-7) by (simp add: updateStartDate_def trip_update_def)
  then show ?thesis using assms(1-4) by (simp add: createTracker_def trip_findUnique_def)
qed




text \<open>
  The claim as stated fails on an existing trip in two ways. A request without
  \<open>startDate\<close> for which no free identifier is found is answered with 500 before the
  trip is written, so the start date is not the current date. A request whose
  \<open>startDate\<close> is a week date, which the runtime does not parse, is answered with 500
  and the start date is not set to it.
\<close>

theorem createTracker_startDate_counterexample:
  "trips db1 (body_tripId req1) = Some trip1
   \<and> errors_isEmpty req1
   \<and> body_startDate req1 = Undefined
   \<and> status (createTracker env1 db1 req1) = 500
   \<and> trips (db (createTracker env1 db1 req1)) ''T1'' = Some trip1
   \<and> startDate trip1 = Some 1700000000000
   \<and> now env1 = 1730548800123
   \<and> newDate env2 ''2025-W01'' = InvalidDate
   \<and> status (createTracker env2 db1 (req1\<lparr>body_startDate := Str ''2025-W01''\<rparr>)) = 500
   \<and> trips (db (createTracker env2 db1 (req1\<lparr>body_startDate := Str ''2025-W01''\<rparr>))) ''T1'' =
       Some trip1"
proof -
  have a: "createTracker env1 db1 req1 = caught ''Failed to create tracker'' db1"
    by (rule create_exhausted [of _ _ _ ExhaustedAttempts 10])
      (simp_all add: ensureUnique_all_taken candidate_env1)
  have nd: "newDate env2 ''2025-W01'' = InvalidDate" by (simp add: env2_def env1_def)
  have b: "createTracker env2 db1 (req1\<lparr>body_startDate := Str ''2025-W01''\<rparr>) =
      caught ''Failed to create tracker'' db1"
    using nd env2_free_id
    by (intro create_invalid_startDate [of _ _ _ trip1 "''TRKI0123''" "''2025-W01''"]) simp_all
  show ?thesis using nd by (simp add: a b caught_def respond_def trip1_def)
qed

text \<open>
  Claim C3, amended. A create answered with 201 has inserted one tracker row under an
  identifier that was free and has written the trip's start date. When the tracker
  insert is reached and fails, the answer is 500, no mail is attempted and no tracker
  row is inserted, but the store is the one the start-date update left: the write of
  the trip's start date, made before the insert, is not undone.
\<close>

theorem createTracker_insert_failure:
  "(status (createTracker e s req) = 201 \<longrightarrow>
      (\<exists>tid row tr t. fst (ensureUniqueTrackerId e s 10) = Inr tid \<and> trackerId row = tid \<and>
         tripTrackers s tid = None \<and> trips s (body_tripId req) = Some tr \<and>
         db (createTracker e s req) =
           s\<lparr>trips := (trips s)(body_tripId req \<mapsto> tr\<lparr>startDate := Some t\<rparr>),
             tripTrackers := (tripTrackers s)(tid \<mapsto> row)\<rparr>))
   \<and> (\<forall>tr tid s1 x. errors_isEmpty req \<and> \<not> rejects e 84 \<and>
         trips s (body_tripId req) = Some tr \<and>
         fst (ensureUniqueTrackerId e s 10) = Inr tid \<and>
         updateStartDate e s req = Inr s1 \<and>
         tripTracker_create e 128 s1 (trackerData e req tid) = Inl x \<longrightarrow>
         status (createTracker e s req) = 500 \<and>
         SendEmail \<notin> set (effects (createTracker e s req)) \<and>
         tripTrackers (db (createTracker e s req)) = tripTrackers s \<and>
         db (createTracker e s req) = s1 \<and>
         (\<exists>t. trips s1 = (trips s)(body_tripId req \<mapsto> tr\<lparr>startDate := Some t\<rparr>)))"
proof (intro conjI allI impI)
  assume ok: "status (createTracker e s req) = 201"
  have v: "errors_isEmpty req" using ok
    by (auto simp: createTracker_def respond_def split: if_splits)
  have r: "\<not> rejects e 84" using ok v
    by (auto simp: createTracker_def trip_findUnique_def caught_def respond_def split: if_splits)
  obtain tr where tr: "trips s (body_tripId req) = Some tr" using ok v r
    by (cases "trips s (body_tripId req)")
      (auto simp: createTracker_def trip_findUnique_def respond_def)
  obtain tid where tid: "fst (ensureUniqueTrackerId e s 10) = Inr tid" using ok v r tr
    by (cases "fst (ensureUniqueTrackerId e s 10)")
      (auto simp: createTracker_def trip_findUnique_def respond_def caught_def)
  obtain s1 where s1: "updateStartDate e s req = Inr s1" using ok v r tr tid
    by (cases "updateStartDate e s req")
      (auto simp: createTracker_def trip_findUnique_def respond_def caught_def)
  note stage = create_to_insert [OF v r tr tid s1]
  obtain row s2 where ins: "tripTracker_create e 128 s1 (trackerData e req tid) = Inr (row, s2)"
    using ok stage by (cases "tripTracker_create e 128 s1 (trackerData e req tid)")
      (auto simp: respond_def caught_def)
  have out: "db (createTracker e s req) = s2" using ok stage ins
    by (auto simp: respond_def caught_def split: sum.splits)
  obtain t where upd: "s1 = s\<lparr>trips := (trips s)(body_tripId req \<mapsto> tr\<lparr>startDate := Some t\<rparr>)\<rparr>"
    using updateStartDate_Inr [OF s1] tr by auto
  have s2: "s2 = s1\<lparr>tripTrackers := (tripTrackers s1)(tid \<mapsto> row)\<rparr>"
    and free: "tripTrackers s1 tid = None" and key: "trackerId row = tid"
    using tripTracker_create_Inr [OF ins] by (simp_all add: trackerData_def)
  show "\<exists>tid row tr t. fst (ensureUniqueTrackerId e s 10) = Inr tid \<and> trackerId row = tid \<and>
         tripTrackers s tid = None \<and> trips s (body_tripId req) = Some tr \<and>
         db (createTracker e s req) =
           s\<lparr>trips := (trips s)(body_tripId req \<mapsto> tr\<lparr>startDate := Some t\<rparr>),
             tripTrackers := (tripTrackers s)(tid \<mapsto> row)\<rparr>"
    using out s2 free upd tr tid key
    by (intro exI [of _ tid] exI [of _ row] exI [of _ tr] exI [of _ t]) simp
next
  fix tr :: trip and tid :: string and s1 :: database and x :: thrown
  assume h: "errors_isEmpty req \<and> \<not> rejects e 84 \<and>
         trips s (body_tripId req) = Some tr \<and>
         fst (ensureUniqueTrackerId e s 10) = Inr tid \<and>
         updateStartDate e s req = Inr s1 \<and>
         tripTracker_create e 128 s1 (trackerData e req tid) = Inl x"
  then have out: "createTracker e s req = caught ''Failed to create tracker'' s1"
    using create_to_insert [of req e s tr tid s1] by simp
  obtain t where upd: "s1 = s\<lparr>trips := (trips s)(body_tripId req \<mapsto> tr\<lparr>startDate := Some t\<rparr>)\<rparr>"
    using updateStartDate_Inr [of e s req s1] h by auto
  show "status (createTracker e s req) = 500" by (simp add: out caught_def respond_def)
  show "SendEmail \<notin> set (effects (createTracker e s req))"
    by (simp add: out caught_def respond_def)
  show "db (createTracker e s req) = s1" by (simp add: out caught_def respond_def)
  show "tripTrackers (db (createTracker e s req)) = tripTrackers s"
    by (simp add: out caught_def respond_def upd)
  show "\<exists>t. trips s1 = (trips s)(body_tripId req \<mapsto> tr\<lparr>startDate := Some t\<rparr>)"
    using upd by auto
qed

lemma env2_insert_rejected:
  "tripTracker_create (env2\<lparr>rejects := (\<lambda>l. l = 128)\<rparr>) 128 s1 d = Inl StoreError"
  by (simp add: tripTracker_create_def)

lemma env2_rejecting_free_id:
  "fst (ensureUniqueTrackerId (env2\<lparr>rejects := (\<lambda>l. l = 128)\<rparr>) db1 10) = Inr ''TRKI0123''"
proof -
  have c: "\<And>i. candidate (env2\<lparr>rejects := (\<lambda>l. l = 128)\<rparr>) i = candidate env2 i"
    by (simp add: candidate_def)
  have "ensureUniqueTrackerId (env2\<lparr>rejects := (\<lambda>l. l = 128)\<rparr>) db1 10 =
      (Inr (candidate (env2\<lparr>rejects := (\<lambda>l. l = 128)\<rparr>) 1), Suc 1)"
    by (rule ensureUnique_first_free) (simp_all add: c candidate_env2)
  then show ?thesis by (simp add: c candidate_env2)
qed

theorem createTracker_insert_failure_witness:
  "status (createTracker (env2\<lparr>rejects := (\<lambda>l. l = 128)\<rparr>) db1 req1) = 500
   \<and> SendEmail \<notin> set (effects (createTracker (env2\<lparr>rejects := (\<lambda>l. l = 128)\<rparr>) db1 req1))
   \<and> tripTrackers (db (createTracker (env2\<lparr>rejects := (\<lambda>l. l = 128)\<rparr>) db1 req1)) =
       tripTrackers db1
   \<and> status (createTracker env2 db1 req1) = 201
   \<and> tripTrackers (db (createTracker env2 db1 req1)) ''TRKI0123'' \<noteq> None"
proof -
  let ?e = "env2\<lparr>rejects := (\<lambda>l. l = 128)\<rparr>"
  let ?s1 = "db1\<lparr>trips := (trips db1)(''T1'' \<mapsto> trip1\<lparr>startDate := Some 1730548800123\<rparr>)\<rparr>"
  have upd: "updateStartDate ?e db1 req1 = Inr ?s1"
    by (simp add: updateStartDate_def trip_update_def)
  have pre: "errors_isEmpty req1 \<and> \<not> rejects ?e 84 \<and>
         trips db1 (body_tripId req1) = Some trip1 \<and>
         fst (ensureUniqueTrackerId ?e db1 10) = Inr ''TRKI0123'' \<and>
         updateStartDate ?e db1 req1 = Inr ?s1 \<and>
         tripTracker_create ?e 128 ?s1 (trackerData ?e req1 ''TRKI0123'') = Inl StoreError"
    using upd env2_rejecting_free_id env2_insert_rejected by simp
  note fail = createTracker_insert_failure [of ?e db1 req1, THEN conjunct2, rule_format, OF pre]
  have ok: "status (createTracker env2 db1 req1) = 201"
    using create_to_insert [of req1 env2 db1 trip1 "''TRKI0123''"
        "db1\<lparr>trips := (trips db1)(''T1'' \<mapsto> trip1\<lparr>startDate := Some 1730548800123\<rparr>)\<rparr>"]
      env2_free_id
    by (simp add: updateStartDate_def trip_update_def tripTracker_create_def trackerData_def
        new_row_def insert_row_def trip_findUnique_def respond_def)
  have row: "tripTrackers (db (createTracker env2 db1 req1)) ''TRKI0123'' \<noteq> None"
    using createTracker_insert_failure [of env2 db1 req1, THEN conjunct1] ok env2_free_id
    by auto
  show ?thesis using fail ok row by simp
qed

text \<open>
  The claim as stated fails when the insert fails: the request has changed the trip's
  start date, and the changed date stays in the store.
\<close>

theorem createTracker_partial_commit_counterexample:
  "status (createTracker (env2\<lparr>rejects := (\<lambda>l. l = 128)\<rparr>) db1 req1) = 500
   \<and> trips db1 ''T1'' = Some trip1
   \<and> startDate trip1 = Some 1700000000000
   \<and> trips (db (createTracker (env2\<lparr>rejects := (\<lambda>l. l = 128)\<rparr>) db1 req1)) ''T1'' =
       Some (trip1\<lparr>startDate := Some 1730548800123\<rparr>)
   \<and> db (createTracker (env2\<lparr>rejects := (\<lambda>l. l = 128)\<rparr>) db1 req1) \<noteq> db1"
proof -
  let ?e = "env2\<lparr>rejects := (\<lambda>l. l = 128)\<rparr>"
  let ?s1 = "db1\<lparr>trips := (trips db1)(''T1'' \<mapsto> trip1\<lparr>startDate := Some 1730548800123\<rparr>)\<rparr>"
  have upd: "updateStartDate ?e db1 req1 = Inr ?s1"
    by (simp add: updateStartDate_def trip_update_def)
  have out: "createTracker ?e db1 req1 = caught ''Failed to create tracker'' ?s1"
    using create_to_insert [of req1 ?e db1 trip1 "''TRKI0123''" ?s1] upd env2_rejecting_free_id
      env2_insert_rejected
    by simp
  have differ: "trips ?s1 ''T1'' \<noteq> trips db1 ''T1''" by (simp add: trip1_def)
  then have "?s1 \<noteq> db1" by metis
  then show ?thesis using out by (simp add: caught_def respond_def trip1_def)
qed

text \<open>
  Claim C9. When validation has passed, the trip was found (at both lookups), an
  identifier was generated and the tracker row was inserted, a mail dispatch that
  returns a failure or throws is only logged: the answer is 201 with the inserted
  tracker, the store keeps the inserted row, and the only effects are the dispatch and
  one console call.
\<close>

theorem createTracker_mail_failure:
  assumes "errors_isEmpty req" and "\<not> rejects e 84" and "trips s (body_tripId req) = Some tr"
    and "fst (ensureUniqueTrackerId e s 10) = Inr tid"
    and "updateStartDate e s req = Inr s1"
    and "tripTracker_create e 128 s1 (trackerData e req tid) = Inr (tracker, s2)"
    and "\<not> rejects e 146"
    and "sendMail e = Failure \<or> sendMail e = Throws"
  shows "status (createTracker e s req) = 201
    \<and> reply (createTracker e s req) = TrackerCreated tracker (tripName tr) (destination tr)
    \<and> db (createTracker e s req) = s2
    \<and> tripTrackers (db (createTracker e s req)) tid = Some tracker
    \<and> effects (createTracker e s req) =
        [SendEmail, if sendMail e = Failure then ConsoleWarn else ConsoleError]"
proof -
  note stage = create_to_insert [OF assms(1-5)]
  have s2: "s2 = s1\<lparr>tripTrackers := (tripTrackers s1)(tid \<mapsto> tracker)\<rparr>"
    and same: "trips s2 = trips s1"
    using tripTracker_create_Inr [OF assms(6)] by (simp_all add: trackerData_def)
  obtain tr1 where "trips s1 (body_tripId req) = Some tr1"
    using updateStartDate_Inr [OF assms(5)] by auto
  then have found: "trip_findUnique e 146 s2 (body_tripId req) = Inr (Some tr1)"
    using assms(7) same by (simp add: trip_findUnique_def)
  have out: "createTracker e s req =
      respond 201 (TrackerCreated tracker (tripName tr) (destination tr)) s2
        (sendConfirmation e (Some tr1))"
    using stage assms(6) found by simp
  show ?thesis using assms(8) by (auto simp: out respond_def sendConfirmation_def s2)
qed

theorem createTracker_mail_failure_witness:
  "status (createTracker (env2\<lparr>sendMail := Failure\<rparr>) db1 req1) = 201
   \<and> tripTrackers (db (createTracker (env2\<lparr>sendMail := Failure\<rparr>) db1 req1)) ''TRKI0123'' \<noteq> None
   \<and> effects (createTracker (env2\<lparr>sendMail := Failure\<rparr>) db1 req1) = [SendEmail, ConsoleWarn]
   \<and> status (createTracker (env2\<lparr>sendMail := Throws\<rparr>) db1 req1) = 201
   \<and> effects (createTracker (env2\<lparr>sendMail := Throws\<rparr>) db1 req1) = [SendEmail, ConsoleError]"
proof -
  let ?s1 = "db1\<lparr>trips := (trips db1)(''T1'' \<mapsto> trip1\<lparr>startDate := Some 1730548800123\<rparr>)\<rparr>"
  let ?row = "\<lparr>trackerId = ''TRKI0123'', tripId = ''T1'', email = ''b@x.com'',
     travelerName = None, phone = None, saveDate = Some 1730548800123,
     isActive = True, accessCount = 0, lastAccessed = None, expiresAt = None\<rparr>"
  let ?s2 = "?s1\<lparr>tripTrackers := (tripTrackers ?s1)(''TRKI0123'' \<mapsto> ?row)\<rparr>"
  have id: "\<And>m. fst (ensureUniqueTrackerId (env2\<lparr>sendMail := m\<rparr>) db1 10) = Inr ''TRKI0123''"
  proof -
    fix m
    have c: "\<And>i. candidate (env2\<lparr>sendMail := m\<rparr>) i = candidate env2 i"
      by (simp add: candidate_def)
    have "ensureUniqueTrackerId (env2\<lparr>sendMail := m\<rparr>) db1 10 =
        (Inr (candidate (env2\<lparr>sendMail := m\<rparr>) 1), Suc 1)"
      by (rule ensureUnique_first_free) (simp_all add: c candidate_env2)
    then show "fst (ensureUniqueTrackerId (env2\<lparr>sendMail := m\<rparr>) db1 10) = Inr ''TRKI0123''"
      by (simp add: c candidate_env2)
  qed
  have upd: "\<And>m. updateStartDate (env2\<lparr>sendMail := m\<rparr>) db1 req1 = Inr ?s1"
    by (simp add: updateStartDate_def trip_update_def)
  have ins: "\<And>m. tripTracker_create (env2\<lparr>sendMail := m\<rparr>) 128 ?s1
      (trackerData (env2\<lparr>sendMail := m\<rparr>) req1 ''TRKI0123'') = Inr (?row, ?s2)"
    by (simp add: tripTracker_create_def trackerData_def new_row_def insert_row_def)
  have a: "status (createTracker (env2\<lparr>sendMail := Failure\<rparr>) db1 req1) = 201
    \<and> tripTrackers (db (createTracker (env2\<lparr>sendMail := Failure\<rparr>) db1 req1)) ''TRKI0123'' \<noteq> None
    \<and> effects (createTracker (env2\<lparr>sendMail := Failure\<rparr>) db1 req1) = [SendEmail, ConsoleWarn]"
    using createTracker_mail_failure [of req1 "env2\<lparr>sendMail := Failure\<rparr>" db1 trip1
        "''TRKI0123''" ?s1 ?row ?s2, OF _ _ _ id upd ins]
    by simp
  have b: "status (createTracker (env2\<lparr>sendMail := Throws\<rparr>) db1 req1) = 201
    \<and> effects (createTracker (env2\<lparr>sendMail := Throws\<rparr>) db1 req1) = [SendEmail, ConsoleError]"
    using createTracker_mail_failure [of req1 "env2\<lparr>sendMail := Throws\<rparr>" db1 trip1
        "''TRKI0123''" ?s1 ?row ?s2, OF _ _ _ id upd ins]
    by simp
  show ?thesis using a b by simp
qed

subsection \<open>Ownership check of update and deactivate\<close>

lemma update_denied:
  assumes "tripTrackers s (params_trackerId req) = Some t" and "emailMismatch (query_email req) t"
  shows "db (updateTracker e s req) = s"
    and "errors_isEmpty req \<Longrightarrow> \<not> rejects e 427 \<Longrightarrow>
      updateTracker e s req = respond 403 (ErrorReply ''Access denied'') s []"
  using assms by (simp_all add: updateTracker_def handler_defs)

lemma deactivate_denied:
  assumes "tripTrackers s (params_trackerId req) = Some t" and "emailMismatch (query_email req) t"
  shows "db (deactivateTracker e s req) = s"
    and "\<not> rejects e 492 \<Longrightarrow>
      deactivateTracker e s req = respond 403 (ErrorReply ''Access denied'') s []"
  using assms by (simp_all add: deactivateTracker_def handler_defs)

text \<open>
  Claim C6, amended. For an existing tracker and a request whose query carries a
  non-empty email different from the stored one, update (once validation has passed)
  and deactivate answer 403 ``Access denied'', given that the lookup answers, and in
  every case they leave the store, and so every field of the tracker, as it was.
\<close>

theorem update_deactivate_denied:
  assumes "tripTrackers s (params_trackerId req) = Some t"
    and "query_email req = Str v" and "v \<noteq> []" and "v \<noteq> email t"
  shows "(errors_isEmpty req \<and> \<not> rejects e 427 \<longrightarrow>
            updateTracker e s req = respond 403 (ErrorReply ''Access denied'') s [])
    \<and> (\<not> rejects e 492 \<longrightarrow>
            deactivateTracker e s req = respond 403 (ErrorReply ''Access denied'') s [])
    \<and> db (updateTracker e s req) = s
    \<and> db (deactivateTracker e s req) = s
    \<and> tripTrackers (db (updateTracker e s req)) (params_trackerId req) = Some t
    \<and> tripTrackers (db (deactivateTracker e s req)) (params_trackerId req) = Some t"
proof -
  have m: "emailMismatch (query_email req) t"
    using assms(2-4) by (auto simp: emailMismatch_def)
  show ?thesis
    using update_denied [OF assms(1) m] deactivate_denied [OF assms(1) m] assms(1) by simp
qed

theorem update_deactivate_denied_witness:
  "tripTrackers db1 (params_trackerId (req1\<lparr>query_email := Str ''b@x.com''\<rparr>)) = Some tracker1
   \<and> email tracker1 = ''a@x.com''
   \<and> updateTracker env1 db1 (req1\<lparr>query_email := Str ''b@x.com'', body_phone := Str ''777''\<rparr>) =
       respond 403 (ErrorReply ''Access denied'') db1 []
   \<and> deactivateTracker env1 db1 (req1\<lparr>query_email := Str ''b@x.com''\<rparr>) =
       respond 403 (ErrorReply ''Access denied'') db1 []"
proof -
  have a: "updateTracker env1 db1 (req1\<lparr>query_email := Str ''b@x.com'', body_phone := Str ''777''\<rparr>) =
       respond 403 (ErrorReply ''Access denied'') db1 []"
    using update_deactivate_denied [of db1 "req1\<lparr>query_email := Str ''b@x.com'', body_phone := Str ''777''\<rparr>"
        tracker1 "''b@x.com''" env1]
    by simp
  have b: "deactivateTracker env1 db1 (req1\<lparr>query_email := Str ''b@x.com''\<rparr>) =
       respond 403 (ErrorReply ''Access denied'') db1 []"
    using update_deactivate_denied [of db1 "req1\<lparr>query_email := Str ''b@x.com''\<rparr>"
        tracker1 "''b@x.com''" env1]
    by simp
  show ?thesis using a b by simp
qed

text \<open>
  The claim as stated fails for the empty email, which \<open>?email=\<close> supplies: it differs
  from the stored email, and the tracker is deactivated, or updated, all the same.
\<close>

theorem update_deactivate_empty_email_counterexample:
  "tripTrackers db1 (params_trackerId (req1\<lparr>query_email := Str ''''\<rparr>)) = Some tracker1
   \<and> query_email (req1\<lparr>query_email := Str ''''\<rparr>) \<noteq> Str (email tracker1)
   \<and> status (deactivateTracker env1 db1 (req1\<lparr>query_email := Str ''''\<rparr>)) = 200
   \<and> tripTrackers (db (deactivateTracker env1 db1 (req1\<lparr>query_email := Str ''''\<rparr>)))
        ''TRKABCDEF0123'' = Some (tracker1\<lparr>isActive := False\<rparr>)
   \<and> isActive tracker1
   \<and> status (updateTracker env1 db1 (req1\<lparr>query_email := Str '''', body_phone := Str ''777''\<rparr>)) = 200
   \<and> tripTrackers (db (updateTracker env1 db1
          (req1\<lparr>query_email := Str '''', body_phone := Str ''777''\<rparr>)))
        ''TRKABCDEF0123'' = Some (tracker1\<lparr>phone := Some ''777''\<rparr>)
   \<and> phone tracker1 = Some ''555''"
  by (simp add: deactivateTracker_def updateTracker_def handler_defs tripTracker_update_def
      updateData_def noData_def Let_def)

subsection \<open>Partial update\<close>








text \<open>
  The claim as stated fails in its clearing clause and in its success clause. An update
  with a matching email and an empty \<open>travelerName\<close>, or a null \<open>expiresAt\<close>, is answered
  with 400 and the field keeps its value. An update whose \<open>expiresAt\<close> is a week date,
  which passes the chain and which the runtime does not parse, is answered with 500.
\<close>

theorem updateTracker_clearing_counterexample:
  "tripTrackers db1 ''TRKABCDEF0123'' = Some tracker1
   \<and> travelerName tracker1 = Some ''Ann''
   \<and> status (putTracker env1 db1
        (req1\<lparr>query_email := Str ''a@x.com'', body_travelerName := Str ''''\<rparr>)) = 400
   \<and> tripTrackers (db (putTracker env1 db1
        (req1\<lparr>query_email := Str ''a@x.com'', body_travelerName := Str ''''\<rparr>))) ''TRKABCDEF0123'' =
       Some tracker1
   \<and> status (putTracker env1
        (db1\<lparr>tripTrackers := [''TRKABCDEF0123'' \<mapsto> tracker1\<lparr>expiresAt := Some 1893456000000\<rparr>]\<rparr>)
        (req1\<lparr>query_email := Str ''a@x.com'', body_expiresAt := Null\<rparr>)) = 400
   \<and> tripTrackers (db (putTracker env1
        (db1\<lparr>tripTrackers := [''TRKABCDEF0123'' \<mapsto> tracker1\<lparr>expiresAt := Some 1893456000000\<rparr>]\<rparr>)
        (req1\<lparr>query_email := Str ''a@x.com'', body_expiresAt := Null\<rparr>))) ''TRKABCDEF0123'' =
       Some (tracker1\<lparr>expiresAt := Some 1893456000000\<rparr>)
   \<and> updateTrackerValidation env1 (req1\<lparr>body_expiresAt := Str ''2025-W01''\<rparr>)
   \<and> status (putTracker env1 db1 (req1\<lparr>body_expiresAt := Str ''2025-W01''\<rparr>)) = 500"
  by (simp add: putTracker_def updateTracker_def updateTrackerValidation_def optional_def
      isLength_def isISO8601_def handler_defs tripTracker_update_def updateData_def noData_def
      env1_def)

subsection \<open>Validation probe\<close>

text \<open>
  Claim C8. The probe never writes: the store after it is the store before it, for every
  request and environment, and it makes no mail call. When its lookup answers, the
  verdict is invalid with the reason ``Tracker not found'', ``Tracker is inactive'' or
  ``Tracker has expired'', in this order; it is valid for an active tracker whose
  \<open>expiresAt\<close> is unset or not before the current instant (its trip being there), and a
  valid verdict is given only for such a tracker.
\<close>

theorem validateTracker_pure:
  "db (validateTracker e s req) = s
   \<and> SendEmail \<notin> set (effects (validateTracker e s req))
   \<and> (\<not> rejects e 593 \<longrightarrow>
        (tripTrackers s (params_trackerId req) = None \<longrightarrow>
           validateTracker e s req = respond 200 (Invalid ''Tracker not found'') s [])
      \<and> (\<forall>t. tripTrackers s (params_trackerId req) = Some t \<and> \<not> isActive t \<longrightarrow>
           validateTracker e s req = respond 200 (Invalid ''Tracker is inactive'') s [])
      \<and> (\<forall>t x. tripTrackers s (params_trackerId req) = Some t \<and> isActive t \<and>
           expiresAt t = Some x \<and> x < now e \<longrightarrow>
           validateTracker e s req = respond 200 (Invalid ''Tracker has expired'') s [])
      \<and> (\<forall>t tr. tripTrackers s (params_trackerId req) = Some t \<and> isActive t \<and>
           (\<forall>x. expiresAt t = Some x \<longrightarrow> now e \<le> x) \<and> trips s (tripId t) = Some tr \<longrightarrow>
           validateTracker e s req =
             respond 200 (Valid (trackerId t) (tripName tr) (destination tr)) s []))
   \<and> (\<forall>a b c. reply (validateTracker e s req) = Valid a b c \<longrightarrow>
        (\<exists>t. tripTrackers s (params_trackerId req) = Some t \<and> isActive t \<and>
           (\<forall>x. expiresAt t = Some x \<longrightarrow> now e \<le> x)))"
proof (intro conjI)
  show "db (validateTracker e s req) = s"
    by (simp add: validateTracker_def handler_defs split: option.splits)
  show "SendEmail \<notin> set (effects (validateTracker e s req))"
    by (simp add: validateTracker_def handler_defs split: option.splits)
  show "\<not> rejects e 593 \<longrightarrow>
        (tripTrackers s (params_trackerId req) = None \<longrightarrow>
           validateTracker e s req = respond 200 (Invalid ''Tracker not found'') s [])
      \<and> (\<forall>t. tripTrackers s (params_trackerId req) = Some t \<and> \<not> isActive t \<longrightarrow>
           validateTracker e s req = respond 200 (Invalid ''Tracker is inactive'') s [])
      \<and> (\<forall>t x. tripTrackers s (params_trackerId req) = Some t \<and> isActive t \<and>
           expiresAt t = Some x \<and> x < now e \<longrightarrow>
           validateTracker e s req = respond 200 (Invalid ''Tracker has expired'') s [])
      \<and> (\<forall>t tr. tripTrackers s (params_trackerId req) = Some t \<and> isActive t \<and>
           (\<forall>x. expiresAt t = Some x \<longrightarrow> now e \<le> x) \<and> trips s (tripId t) = Some tr \<longrightarrow>
           validateTracker e s req =
             respond 200 (Valid (trackerId t) (tripName tr) (destination tr)) s [])"
    by (auto simp: validateTracker_def handler_defs split: option.splits)
  show "\<forall>a b c. reply (validateTracker e s req) = Valid a b c \<longrightarrow>
        (\<exists>t. tripTrackers s (params_trackerId req) = Some t \<and> isActive t \<and>
           (\<forall>x. expiresAt t = Some x \<longrightarrow> now e \<le> x))"
    by (auto simp: validateTracker_def handler_defs split: option.splits if_splits)
qed

theorem validateTracker_pure_witness:
  "\<not> rejects env1 593
   \<and> validateTracker env1 db1 req1 =
       respond 200 (Valid ''TRKABCDEF0123'' (Some ''Bohol 2025'') (Some ''Bohol'')) db1 []
   \<and> validateTracker env1 db1 (req1\<lparr>params_trackerId := ''TRKNONE''\<rparr>) =
       respond 200 (Invalid ''Tracker not found'') db1 []
   \<and> reply (validateTracker env1
        (db1\<lparr>tripTrackers := [''TRKABCDEF0123'' \<mapsto> tracker1\<lparr>expiresAt := Some 5\<rparr>]\<rparr>) req1) =
       Invalid ''Tracker has expired''
   \<and> db (validateTracker env1
        (db1\<lparr>tripTrackers := [''TRKABCDEF0123'' \<mapsto> tracker1\<lparr>expiresAt := Some 5\<rparr>]\<rparr>) req1) =
       db1\<lparr>tripTrackers := [''TRKABCDEF0123'' \<mapsto> tracker1\<lparr>expiresAt := Some 5\<rparr>]\<rparr>"
proof -
  have r: "\<not> rejects env1 593" by simp
  note v = validateTracker_pure [of env1 db1 req1]
  have a: "validateTracker env1 db1 req1 =
       respond 200 (Valid ''TRKABCDEF0123'' (Some ''Bohol 2025'') (Some ''Bohol'')) db1 []"
    using v by (simp add: trip1_def)
  have b: "validateTracker env1 db1 (req1\<lparr>params_trackerId := ''TRKNONE''\<rparr>) =
       respond 200 (Invalid ''Tracker not found'') db1 []"
    using validateTracker_pure [of env1 db1 "req1\<lparr>params_trackerId := ''TRKNONE''\<rparr>"] by simp
  note x = validateTracker_pure [of env1
      "db1\<lparr>tripTrackers := [''TRKABCDEF0123'' \<mapsto> tracker1\<lparr>expiresAt := Some 5\<rparr>]\<rparr>" req1]
  have c: "validateTracker env1
        (db1\<lparr>tripTrackers := [''TRKABCDEF0123'' \<mapsto> tracker1\<lparr>expiresAt := Some 5\<rparr>]\<rparr>) req1 =
       respond 200 (Invalid ''Tracker has expired'')
         (db1\<lparr>tripTrackers := [''TRKABCDEF0123'' \<mapsto> tracker1\<lparr>expiresAt := Some 5\<rparr>]\<rparr>) []"
    using x by simp
  show ?thesis using r a b c x by (simp add: respond_def)
qed

end
